theory Spec2Isabelle
  imports Complex_Main
begin

section \<open>JavaScript strings, numbers and the regular expressions the actions use\<close>

text \<open>
  A source string is modelled as a \<^typ>\<open>string\<close> of ASCII characters; \<open>length\<close> is the
  source's \<open>.length\<close> on such text. Characters outside ASCII are left alone by the case
  mappings and belong to no character class.
\<close>

definition upper_letters :: string where
  "upper_letters = ''ABCDEFGHIJKLMNOPQRSTUVWXYZ''"

definition lower_letters :: string where
  "lower_letters = ''abcdefghijklmnopqrstuvwxyz''"

definition digit_chars :: string where
  "digit_chars = ''0123456789''"

definition toLowerChar :: "char \<Rightarrow> char" where
  "toLowerChar c = (case map_of (zip upper_letters lower_letters) c of Some d \<Rightarrow> d | None \<Rightarrow> c)"

definition toUpperChar :: "char \<Rightarrow> char" where
  "toUpperChar c = (case map_of (zip lower_letters upper_letters) c of Some d \<Rightarrow> d | None \<Rightarrow> c)"

definition toLowerCase :: "string \<Rightarrow> string" where
  "toLowerCase s = map toLowerChar s"

definition toUpperCase :: "string \<Rightarrow> string" where
  "toUpperCase s = map toUpperChar s"

text \<open>The character classes \<open>\s\<close>, \<open>\w\<close>, \<open>\d\<close>, \<open>[-\d.]\<close> and \<open>[:\s]\<close>.\<close>

definition isSpace :: "char \<Rightarrow> bool" where
  "isSpace c = (c \<in> set [CHR 0x09, CHR 0x0A, CHR 0x0B, CHR 0x0C, CHR 0x0D, CHR '' ''])"

definition isDigit :: "char \<Rightarrow> bool" where
  "isDigit c = (c \<in> set digit_chars)"

definition isWord :: "char \<Rightarrow> bool" where
  "isWord c = (c \<in> set (lower_letters @ upper_letters @ digit_chars @ ''_''))"

datatype cls = Space | Word | NumChar | Sep

fun in_cls :: "cls \<Rightarrow> char \<Rightarrow> bool" where
  "in_cls Space c = isSpace c"
| "in_cls Word c = isWord c"
| "in_cls NumChar c = (c = CHR ''-'' \<or> isDigit c \<or> c = CHR ''.'')"
| "in_cls Sep c = (c = CHR '':'' \<or> isSpace c)"

text \<open>\<open>s.startsWith(l)\<close>, and the same up to letter case (the \<open>i\<close> flag).\<close>

definition starts :: "bool \<Rightarrow> string \<Rightarrow> string \<Rightarrow> bool" where
  "starts ci l s =
     (length l \<le> length s \<and>
      (if ci then toUpperCase (take (length l) s) = toUpperCase l
       else take (length l) s = l))"

text \<open>\<open>s.includes(t)\<close> of the source: \<open>t\<close> occurs in \<open>s\<close> as a contiguous substring.\<close>

fun str_includes :: "string \<Rightarrow> string \<Rightarrow> bool" where
  "str_includes [] t = (t = [])"
| "str_includes (c # s) t = (starts False t (c # s) \<or> str_includes s t)"

text \<open>
  The patterns of the source are sequences of five kinds of item: a literal (with or
  without the \<open>i\<close> flag), a non-capturing alternative of literals \<open>(?:a|b)\<close>, \<open>k*\<close>,
  \<open>k+\<close> and the capture group \<open>(k+)\<close> for a character class \<open>k\<close>. Every pattern has
  exactly one capture group. Quantifiers are greedy and backtrack: the longest run is
  tried first, then the shorter ones.
\<close>

datatype item = Lit bool string | Alt "string list" | Star cls | Plus cls | Cap cls

fun first_some :: "('a \<Rightarrow> 'b option) \<Rightarrow> 'a list \<Rightarrow> 'b option" where
  "first_some f [] = None"
| "first_some f (x # xs) = (case f x of Some y \<Rightarrow> Some y | None \<Rightarrow> first_some f xs)"

definition run_lengths :: "cls \<Rightarrow> nat \<Rightarrow> string \<Rightarrow> nat list" where
  "run_lengths k lo s = rev [lo ..< Suc (length (takeWhile (in_cls k) s))]"

fun rmatch :: "item list \<Rightarrow> string \<Rightarrow> string \<Rightarrow> string option" where
  "rmatch [] s c = Some c"
| "rmatch (Lit ci l # r) s c =
     (if starts ci l s then rmatch r (drop (length l) s) c else None)"
| "rmatch (Alt ls # r) s c =
     first_some (\<lambda>l. if starts False l s then rmatch r (drop (length l) s) c else None) ls"
| "rmatch (Star k # r) s c =
     first_some (\<lambda>n. rmatch r (drop n s) c) (run_lengths k 0 s)"
| "rmatch (Plus k # r) s c =
     first_some (\<lambda>n. rmatch r (drop n s) c) (run_lengths k 1 s)"
| "rmatch (Cap k # r) s c =
     first_some (\<lambda>n. rmatch r (drop n s) (take n s)) (run_lengths k 1 s)"

text \<open>
  \<open>s.match(re)\<close> for a pattern without the \<open>g\<close> flag: the leftmost position where the
  pattern matches; the result is group 1 of that match, \<open>None\<close> for JavaScript's \<open>null\<close>.
\<close>

fun js_match :: "item list \<Rightarrow> string \<Rightarrow> string option" where
  "js_match re [] = rmatch re [] []"
| "js_match re (c # s) =
     (case rmatch re (c # s) [] of Some g \<Rightarrow> Some g | None \<Rightarrow> js_match re s)"

text \<open>\<open>a || b\<close> on two match results.\<close>

definition orElse :: "'a option \<Rightarrow> 'a option \<Rightarrow> 'a option" where
  "orElse a b = (case a of Some x \<Rightarrow> Some x | None \<Rightarrow> b)"

text \<open>
  A JavaScript number is a real or \<open>NaN\<close>; rounding to binary floating point and the
  infinities are left out. Every comparison with \<open>NaN\<close> is false.
\<close>

datatype jsnum = Num real | NaN

fun js_lt :: "jsnum \<Rightarrow> jsnum \<Rightarrow> bool" where
  "js_lt (Num a) (Num b) = (a < b)"
| "js_lt _ _ = False"

fun js_le :: "jsnum \<Rightarrow> jsnum \<Rightarrow> bool" where
  "js_le (Num a) (Num b) = (a \<le> b)"
| "js_le _ _ = False"

definition js_ge :: "jsnum \<Rightarrow> jsnum \<Rightarrow> bool" where
  "js_ge a b = js_le b a"

text \<open>\<open>a !== b\<close> on numbers: \<open>NaN\<close> differs from everything, itself included.\<close>

fun js_neq :: "jsnum \<Rightarrow> jsnum \<Rightarrow> bool" where
  "js_neq (Num a) (Num b) = (a \<noteq> b)"
| "js_neq _ _ = True"

definition digit_val :: "char \<Rightarrow> nat" where
  "digit_val c = (case map_of (zip digit_chars [0 ..< 10]) c of Some d \<Rightarrow> d | None \<Rightarrow> 0)"

definition decimal :: "string \<Rightarrow> nat" where
  "decimal ds = foldl (\<lambda>n c. 10 * n + digit_val c) 0 ds"

text \<open>
  \<open>parseFloat\<close> on a string over \<open>[-0-9.]\<close> (every call of the source passes group 1 of
  a \<open>([-\d.]+)\<close> capture): an optional minus sign, digits, an optional point and more
  digits; the longest such prefix is read, and \<open>NaN\<close> is returned when it has no digit.
\<close>

definition parseFloat :: "string \<Rightarrow> jsnum" where
  "parseFloat s =
     (let neg = (case s of c # _ \<Rightarrow> c = CHR ''-'' | [] \<Rightarrow> False);
          r = (if neg then tl s else s);
          ip = takeWhile isDigit r;
          r1 = dropWhile isDigit r;
          fp = (case r1 of c # t \<Rightarrow> (if c = CHR ''.'' then takeWhile isDigit t else []) | [] \<Rightarrow> []);
          v = real (decimal ip) + real (decimal fp) / 10 ^ length fp
      in if ip = [] \<and> fp = [] then NaN else Num (if neg then - v else v))"

section \<open>The data schema (types.ts)\<close>

record ParsedDockingData =
  protein :: string
  ligand :: string
  binding_energy :: jsnum
  docking_tool :: string
  file_hash :: string

record TaggedDockingData = ParsedDockingData +
  tags :: "string list"
  confidence :: real

record DockingResult = TaggedDockingData +
  timestamp :: string
  solana_tx :: "string option"

section \<open>The runtime's memories and the process-wide result array\<close>

text \<open>
  A \<open>Memory\<close> of the host runtime, with the keys of its \<open>content\<close> that the actions read or write.
  A field of \<open>Content\<close> is \<open>None\<close> when the object has no such key; under the key
  \<open>docking_result\<close> the value \<open>Some None\<close> is a key holding \<open>null\<close> or \<open>undefined\<close>.
\<close>

record Content =
  c_text :: "string option"
  c_type :: "string option"
  c_data :: "DockingResult option"
  c_docking_result :: "DockingResult option option"

record Memory =
  m_id :: string
  entityId :: string
  roomId :: string
  m_content :: Content

text \<open>
  The state the actions share. \<open>heap\<close> holds the result objects of the combined workflow,
  an object's address being its index; \<open>dockingResults\<close> is \<open>global.dockingResults\<close>,
  \<open>None\<close> while undefined, otherwise the array of object references. \<open>memories\<close> is
  the runtime's memory table, to which \<open>runtime.createMemory\<close> appends.
\<close>

record sys =
  heap :: "DockingResult list"
  dockingResults :: "nat list option"
  memories :: "Memory list"

definition init_sys :: sys where
  "init_sys = \<lparr> heap = [], dockingResults = None, memories = [] \<rparr>"

text \<open>The records that \<open>global.dockingResults\<close> holds, read through the references.\<close>

definition stored :: "sys \<Rightarrow> DockingResult list" where
  "stored s = (case dockingResults s of None \<Rightarrow> [] | Some refs \<Rightarrow> map (\<lambda>a. heap s ! a) refs)"

text \<open>
  What a handler returns: the fields \<open>text\<close>, \<open>success\<close>, \<open>error\<close> (the message of the
  \<open>Error\<close> object) and \<open>data\<close> of the source's \<open>ActionResult\<close>. The progress callbacks
  only forward text to the caller and are not part of the model.
\<close>

record 'a ActionResult =
  ar_text :: string
  ar_success :: bool
  ar_error :: "string option"
  ar_data :: "'a option"

section \<open>PARSE\_DOCKING\_FILE (parseDockingFile.ts)\<close>

text \<open>
  \<open>createHash("sha256").update(content).digest("hex")\<close> comes from the platform's crypto
  library; the hash function is the parameter \<open>sha256\<close> of everything that calls it.
\<close>

definition parseVinaFormat :: "string \<Rightarrow> string \<Rightarrow> ParsedDockingData option" where
  "parseVinaFormat content fileHash =
     (let proteinMatch =
            orElse (js_match [Lit True ''receptor'', Plus Sep, Cap Word] content)
                   (js_match [Lit True ''protein'', Plus Sep, Cap Word] content);
          ligandMatch =
            orElse (js_match [Lit True ''ligand'', Plus Sep, Cap Word] content)
                   (js_match [Lit True ''REMARK'', Plus Space, Lit True ''Name'', Star Space,
                              Lit True ''='', Star Space, Cap Word] content);
          energyMatch = js_match [Plus Space, Lit False ''1'', Plus Space, Cap NumChar] content
      in Some \<lparr> protein = (case proteinMatch of Some g \<Rightarrow> g | None \<Rightarrow> ''UNKNOWN''),
                ligand = (case ligandMatch of Some g \<Rightarrow> g | None \<Rightarrow> ''UNKNOWN''),
                binding_energy = (case energyMatch of Some g \<Rightarrow> parseFloat g | None \<Rightarrow> Num 0),
                docking_tool = ''AutoDock Vina'',
                file_hash = fileHash \<rparr>)"

definition parseGoldFormat :: "string \<Rightarrow> string \<Rightarrow> ParsedDockingData option" where
  "parseGoldFormat content fileHash =
     (let proteinMatch = js_match [Lit True ''Protein'', Plus Sep, Cap Word] content;
          ligandMatch = js_match [Lit True ''Ligand'', Plus Sep, Cap Word] content;
          scoreMatch = js_match [Lit True ''Gold'', Plus Space, Lit True ''Score'', Plus Sep,
                                 Cap NumChar] content
      in Some \<lparr> protein = (case proteinMatch of Some g \<Rightarrow> g | None \<Rightarrow> ''UNKNOWN''),
                ligand = (case ligandMatch of Some g \<Rightarrow> g | None \<Rightarrow> ''UNKNOWN''),
                binding_energy = (case scoreMatch of Some g \<Rightarrow> parseFloat g | None \<Rightarrow> Num 0),
                docking_tool = ''GOLD'',
                file_hash = fileHash \<rparr>)"

definition parseGlideFormat :: "string \<Rightarrow> string \<Rightarrow> ParsedDockingData option" where
  "parseGlideFormat content fileHash =
     (let proteinMatch = js_match [Lit True ''Receptor'', Plus Sep, Cap Word] content;
          ligandMatch = js_match [Lit True ''Title'', Plus Sep, Cap Word] content;
          scoreMatch = js_match [Lit True ''Docking'', Plus Space, Lit True ''Score'', Plus Sep,
                                 Cap NumChar] content
      in Some \<lparr> protein = (case proteinMatch of Some g \<Rightarrow> g | None \<Rightarrow> ''MOCK_PROTEIN''),
                ligand = (case ligandMatch of Some g \<Rightarrow> g | None \<Rightarrow> ''MOCK_LIGAND''),
                binding_energy =
                  (case scoreMatch of Some g \<Rightarrow> parseFloat g | None \<Rightarrow> Num (- 7.5)),
                docking_tool = ''Glide'',
                file_hash = fileHash \<rparr>)"

definition parseGenericFormat :: "string \<Rightarrow> string \<Rightarrow> ParsedDockingData option" where
  "parseGenericFormat content fileHash =
     (if length content < 10 then None
      else Some \<lparr> protein = ''GENERIC_PROTEIN'',
                  ligand = ''GENERIC_LIGAND'',
                  binding_energy = Num (- 6.0),
                  docking_tool = ''Unknown'',
                  file_hash = fileHash \<rparr>)"

text \<open>\<open>None\<close> is the source's \<open>null\<close>, which the handler reports as \<open>PARSE_FAILED\<close>.\<close>

definition parseDockingContent :: "(string \<Rightarrow> string) \<Rightarrow> string \<Rightarrow> ParsedDockingData option" where
  "parseDockingContent sha256 content =
     (let fileHash = sha256 content
      in if str_includes content ''AutoDock Vina'' \<or> str_includes content ''VINA RESULT''
         then parseVinaFormat content fileHash
         else if str_includes content ''GOLD'' \<or> str_includes content ''Gold Score''
         then parseGoldFormat content fileHash
         else if str_includes content ''Glide'' \<or> str_includes content ''GLIDE''
         then parseGlideFormat content fileHash
         else parseGenericFormat content fileHash)"

text \<open>
  The handlers take the shared state and return it with their result; \<open>message.content.text
  || ""\<close> is the submitted text.
\<close>

definition message_text :: "Memory \<Rightarrow> string" where
  "message_text message = (case c_text (m_content message) of Some t \<Rightarrow> t | None \<Rightarrow> [])"

definition parseDockingFile_handler ::
  "(string \<Rightarrow> string) \<Rightarrow> Memory \<Rightarrow> sys \<Rightarrow> ParsedDockingData ActionResult \<times> sys" where
  "parseDockingFile_handler sha256 message s =
     (let fileContent = message_text message
      in case parseDockingContent sha256 fileContent of
           None \<Rightarrow>
             (\<lparr> ar_text = ''Failed to parse docking file. Unsupported format or invalid data.'',
                ar_success = False, ar_error = Some ''PARSE_FAILED'', ar_data = None \<rparr>, s)
         | Some parsedData \<Rightarrow>
             (\<lparr> ar_text = ''Docking file parsed successfully'', ar_success = True,
                ar_error = None, ar_data = Some parsedData \<rparr>, s))"

section \<open>AUTO\_TAG\_DOCKING\_RESULT (the standalone classifier)\<close>

text \<open>\<open>s.replace(/\s+/g, "_")\<close>: every maximal run of white space becomes one underscore.\<close>

function replace_ws :: "string \<Rightarrow> string" where
  "replace_ws [] = []"
| "replace_ws (c # s) =
     (if isSpace c then CHR ''_'' # replace_ws (dropWhile isSpace s) else c # replace_ws s)"
  by pat_completeness auto
termination
  by (relation "measure length") (auto simp: less_Suc_eq_le length_dropWhile_le)

definition calculateConfidence :: "ParsedDockingData \<Rightarrow> real" where
  "calculateConfidence d =
     (let score = 0;
          score = (if protein d \<noteq> ''UNKNOWN'' \<and> protein d \<noteq> ''GENERIC_PROTEIN''
                   then score + 0.3 else score);
          score = (if ligand d \<noteq> ''UNKNOWN'' \<and> ligand d \<noteq> ''GENERIC_LIGAND''
                   then score + 0.3 else score);
          score = (if js_neq (binding_energy d) (Num 0) \<and> js_lt (binding_energy d) (Num 0)
                   then score + 0.2 else score);
          score = (if docking_tool d \<noteq> ''Unknown'' then score + 0.2 else score)
      in min score 1.0)"

definition applyTags :: "ParsedDockingData \<Rightarrow> TaggedDockingData" where
  "applyTags d =
     (let tags = [];
          energy = binding_energy d;
          tags = tags @ [if js_lt energy (Num (- 10)) then ''very_strong_binder''
                         else if js_lt energy (Num (- 8)) then ''strong_binder''
                         else if js_lt energy (Num (- 6)) then ''moderate_binder''
                         else if js_lt energy (Num (- 4)) then ''weak_binder''
                         else ''very_weak_binder''];
          tags = tags @ [''tool_'' @ replace_ws (toLowerCase (docking_tool d))];
          tags = tags @ [if protein d \<noteq> ''UNKNOWN'' \<and> protein d \<noteq> ''GENERIC_PROTEIN''
                         then ''protein_identified'' else ''protein_unknown''];
          tags = tags @ [if ligand d \<noteq> ''UNKNOWN'' \<and> ligand d \<noteq> ''GENERIC_LIGAND''
                         then ''ligand_identified'' else ''ligand_unknown''];
          confidence = calculateConfidence d
      in \<lparr> protein = protein d, ligand = ligand d, binding_energy = binding_energy d,
           docking_tool = docking_tool d, file_hash = file_hash d,
           tags = tags, confidence = confidence \<rparr>)"

text \<open>
  The handler's \<open>options\<close>: \<open>prev_parse_data\<close> is the value of
  \<open>options?.context?.getPreviousResult?.("PARSE_DOCKING_FILE")?.data\<close> and \<open>parsedData\<close>
  that of \<open>options?.parsedData\<close>, \<open>None\<close> when the chain gives \<open>undefined\<close>.
\<close>

record AutoTagOptions =
  prev_parse_data :: "ParsedDockingData option"
  parsedData :: "ParsedDockingData option"

definition autoTag_handler ::
  "AutoTagOptions \<Rightarrow> sys \<Rightarrow> TaggedDockingData ActionResult \<times> sys" where
  "autoTag_handler options s =
     (case orElse (prev_parse_data options) (parsedData options) of
        None \<Rightarrow>
          (\<lparr> ar_text = ''No parsed docking data found. Please run PARSE_DOCKING_FILE first.'',
             ar_success = False, ar_error = Some ''MISSING_PARSED_DATA'', ar_data = None \<rparr>, s)
      | Some pd \<Rightarrow>
          (\<lparr> ar_text = ''Docking result tagged successfully'',
             ar_success = True, ar_error = None, ar_data = Some (applyTags pd) \<rparr>, s))"

section \<open>JSON.stringify on the flat objects the actions serialise\<close>

text \<open>
  A property value is a string, a number, \<open>null\<close> or an array of strings; an object is
  the list of its properties in insertion order, the order in which \<open>JSON.stringify\<close>
  writes them. The decimal text of a finite number (\<open>Number.prototype.toString\<close>) is the
  parameter \<open>numstr\<close>; \<open>NaN\<close> is written \<open>null\<close>.
\<close>

datatype jval = JStr string | JNum jsnum | JNull | JStrs "string list"

definition hex_digits :: string where
  "hex_digits = ''0123456789abcdef''"

definition json_escape :: "char \<Rightarrow> string" where
  "json_escape c =
     (if c = CHR 0x22 then [CHR 0x5C, CHR 0x22]
      else if c = CHR 0x5C then [CHR 0x5C, CHR 0x5C]
      else if c = CHR 0x08 then [CHR 0x5C, CHR ''b'']
      else if c = CHR 0x0C then [CHR 0x5C, CHR ''f'']
      else if c = CHR 0x0A then [CHR 0x5C, CHR ''n'']
      else if c = CHR 0x0D then [CHR 0x5C, CHR ''r'']
      else if c = CHR 0x09 then [CHR 0x5C, CHR ''t'']
      else if (of_char c :: nat) < 32
      then [CHR 0x5C, CHR ''u'', CHR ''0'', CHR ''0'',
            hex_digits ! ((of_char c :: nat) div 16), hex_digits ! ((of_char c :: nat) mod 16)]
      else [c])"

definition json_quote :: "string \<Rightarrow> string" where
  "json_quote s = [CHR 0x22] @ concat (map json_escape s) @ [CHR 0x22]"

fun join :: "string \<Rightarrow> string list \<Rightarrow> string" where
  "join sep [] = []"
| "join sep [x] = x"
| "join sep (x # y # ys) = x @ sep @ join sep (y # ys)"

fun json_val :: "(real \<Rightarrow> string) \<Rightarrow> jval \<Rightarrow> string" where
  "json_val numstr (JStr s) = json_quote s"
| "json_val numstr (JNum (Num x)) = numstr x"
| "json_val numstr (JNum NaN) = ''null''"
| "json_val numstr JNull = ''null''"
| "json_val numstr (JStrs xs) = ''['' @ join '','' (map json_quote xs) @ '']''"

definition JSON_stringify :: "(real \<Rightarrow> string) \<Rightarrow> (string \<times> jval) list \<Rightarrow> string" where
  "JSON_stringify numstr obj =
     ''{'' @ join '','' (map (\<lambda>(k, v). json_quote k @ '':'' @ json_val numstr v) obj) @ ''}''"

section \<open>PROCESS\_DOCKING\_WORKFLOW (processDockingWorkflow.ts)\<close>

text \<open>The file has its own \<open>parseDockingContent\<close> and \<open>applyTags\<close>; they carry the prefix \<open>wf_\<close>.\<close>

definition wf_parseDockingContent :: "(string \<Rightarrow> string) \<Rightarrow> string \<Rightarrow> ParsedDockingData" where
  "wf_parseDockingContent sha256 content =
     (let fileHash = sha256 content;
          proteinMatch =
            orElse (js_match [Lit True ''receptor'', Plus Sep, Cap Word] content)
                   (js_match [Lit True ''protein'', Plus Sep, Cap Word] content);
          ligandMatch = js_match [Lit True ''ligand'', Plus Sep, Cap Word] content;
          energyMatch =
            orElse (js_match [Lit True ''energy'', Plus Sep, Cap NumChar] content)
           (orElse (js_match [Cap NumChar, Star Space, Lit True ''kcal''] content)
           (orElse (js_match [Lit True ''affinity'', Star Space, Lit True ''='', Star Space,
                              Cap NumChar] content)
                   (js_match [Plus Space, Lit False ''1'', Plus Space, Cap NumChar] content)))
      in \<lparr> protein = (case proteinMatch of Some g \<Rightarrow> g | None \<Rightarrow> ''UNKNOWN''),
           ligand = (case ligandMatch of Some g \<Rightarrow> g | None \<Rightarrow> ''UNKNOWN''),
           binding_energy = (case energyMatch of Some g \<Rightarrow> parseFloat g | None \<Rightarrow> Num 0),
           docking_tool =
             (if str_includes content ''Vina'' then ''AutoDock Vina''
              else if str_includes content ''GOLD'' then ''GOLD''
              else if str_includes content ''Glide'' then ''Glide''
              else ''Unknown''),
           file_hash = fileHash \<rparr>)"

definition wf_applyTags :: "ParsedDockingData \<Rightarrow> TaggedDockingData" where
  "wf_applyTags d =
     (let tags = [];
          energy = binding_energy d;
          tags = tags @ [if js_lt energy (Num (- 10)) then ''very_strong_binder''
                         else if js_lt energy (Num (- 8)) then ''strong_binder''
                         else if js_lt energy (Num (- 6)) then ''moderate_binder''
                         else if js_lt energy (Num (- 4)) then ''weak_binder''
                         else ''very_weak_binder''];
          tags = tags @ [''tool_'' @ replace_ws (toLowerCase (docking_tool d))];
          tags = (if protein d \<noteq> ''UNKNOWN'' then tags @ [''protein_identified''] else tags);
          tags = (if ligand d \<noteq> ''UNKNOWN'' then tags @ [''ligand_identified''] else tags);
          confidence = 0;
          confidence = (if protein d \<noteq> ''UNKNOWN'' then confidence + 0.3 else confidence);
          confidence = (if ligand d \<noteq> ''UNKNOWN'' then confidence + 0.3 else confidence);
          confidence = (if js_neq (binding_energy d) (Num 0) \<and> js_lt (binding_energy d) (Num 0)
                        then confidence + 0.2 else confidence);
          confidence = (if docking_tool d \<noteq> ''Unknown'' then confidence + 0.2 else confidence)
      in \<lparr> protein = protein d, ligand = ligand d, binding_energy = binding_energy d,
           docking_tool = docking_tool d, file_hash = file_hash d,
           tags = tags, confidence = min confidence 1.0 \<rparr>)"

text \<open>
  The properties of a result object in the order in which the spreads
  \<open>{...data, tags, confidence}\<close> and \<open>{...taggedData, timestamp, solana_tx}\<close> create them;
  \<open>JSON.stringify(result)\<close> writes them in this order.
\<close>

definition result_props :: "DockingResult \<Rightarrow> (string \<times> jval) list" where
  "result_props r =
     [(''protein'', JStr (protein r)),
      (''ligand'', JStr (ligand r)),
      (''binding_energy'', JNum (binding_energy r)),
      (''docking_tool'', JStr (docking_tool r)),
      (''file_hash'', JStr (file_hash r)),
      (''tags'', JStrs (tags r)),
      (''confidence'', JNum (Num (confidence r))),
      (''timestamp'', JStr (timestamp r)),
      (''solana_tx'', (case solana_tx r of None \<Rightarrow> JNull | Some t \<Rightarrow> JStr t))]"

text \<open>
  The handler up to and including \<open>global.dockingResults.push(result)\<close>: the new object
  is allocated with \<open>solana_tx: null\<close>, and its reference is appended to the array, which
  is created first when it is still undefined. The result is the object's address and
  the state.
\<close>

definition wf_push :: "TaggedDockingData \<Rightarrow> string \<Rightarrow> sys \<Rightarrow> nat \<times> sys" where
  "wf_push taggedData ts s =
     (let result = \<lparr> protein = protein taggedData, ligand = ligand taggedData,
                     binding_energy = binding_energy taggedData,
                     docking_tool = docking_tool taggedData, file_hash = file_hash taggedData,
                     tags = tags taggedData, confidence = confidence taggedData,
                     timestamp = ts, solana_tx = None \<rparr>;
          a = length (heap s);
          arr = (case dockingResults s of None \<Rightarrow> [] | Some refs \<Rightarrow> refs)
      in (a, s\<lparr> heap := heap s @ [result], dockingResults := Some (arr @ [a]) \<rparr>))"

text \<open>The digest the handler computes after the push: it hashes \<open>JSON.stringify(result)\<close>.\<close>

definition wf_metadataHash ::
  "(string \<Rightarrow> string) \<Rightarrow> (real \<Rightarrow> string) \<Rightarrow> DockingResult \<Rightarrow> string" where
  "wf_metadataHash sha256 numstr result = sha256 (JSON_stringify numstr (result_props result))"

text \<open>The rest of the handler: \<open>result.solana_tx = mockTxId\<close> writes to the pushed object.\<close>

definition wf_anchor :: "(string \<Rightarrow> string) \<Rightarrow> (real \<Rightarrow> string) \<Rightarrow> nat \<Rightarrow> sys \<Rightarrow> sys" where
  "wf_anchor sha256 numstr a s =
     (let metadataHash = wf_metadataHash sha256 numstr (heap s ! a);
          mockTxId = ''MOCK_'' @ take 16 metadataHash
      in s\<lparr> heap := (heap s)[a := (heap s ! a)\<lparr> solana_tx := Some mockTxId \<rparr>] \<rparr>)"

text \<open>
  The handler; \<open>ts\<close> is what \<open>new Date().toISOString()\<close> returns. The test
  \<open>!parsedData\<close> never fires, since the parser of this file always returns an object.
\<close>

definition workflow_handler ::
  "(string \<Rightarrow> string) \<Rightarrow> (real \<Rightarrow> string) \<Rightarrow> Memory \<Rightarrow> string \<Rightarrow> sys
     \<Rightarrow> DockingResult ActionResult \<times> sys" where
  "workflow_handler sha256 numstr message ts s =
     (let fileContent = message_text message;
          parsedData = wf_parseDockingContent sha256 fileContent;
          taggedData = wf_applyTags parsedData;
          (a, s1) = wf_push taggedData ts s;
          s2 = wf_anchor sha256 numstr a s1
      in (\<lparr> ar_text = ''Docking workflow completed successfully'', ar_success = True,
             ar_error = None, ar_data = Some (heap s2 ! a) \<rparr>, s2))"

section \<open>STORE\_METADATA (storeMetadata.ts)\<close>

text \<open>The two settings \<open>runtime.getSetting\<close> is asked for; \<open>None\<close> is an unset one.\<close>

record Settings =
  SOLANA_RPC_URL :: "string option"
  SOLANA_PRIVATE_KEY :: "string option"

text \<open>\<open>!x\<close> on a setting: unset and the empty string are both falsy.\<close>

definition falsy :: "string option \<Rightarrow> bool" where
  "falsy x = (case x of None \<Rightarrow> True | Some v \<Rightarrow> v = [])"

record StoreOptions =
  prev_tag_data :: "TaggedDockingData option"
  taggedData :: "TaggedDockingData option"

text \<open>\<open>storeInDatabase\<close> builds the result object and logs it; it writes nowhere.\<close>

definition storeInDatabase :: "TaggedDockingData \<Rightarrow> string \<Rightarrow> DockingResult" where
  "storeInDatabase td ts =
     \<lparr> protein = protein td, ligand = ligand td, binding_energy = binding_energy td,
       docking_tool = docking_tool td, file_hash = file_hash td,
       tags = tags td, confidence = confidence td,
       timestamp = ts, solana_tx = None \<rparr>"

text \<open>The object literal that \<open>createSolanaProof\<close> serialises: eight fields, in this order.\<close>

definition metadata_props :: "DockingResult \<Rightarrow> (string \<times> jval) list" where
  "metadata_props d =
     [(''protein'', JStr (protein d)),
      (''ligand'', JStr (ligand d)),
      (''binding_energy'', JNum (binding_energy d)),
      (''docking_tool'', JStr (docking_tool d)),
      (''tags'', JStrs (tags d)),
      (''confidence'', JNum (Num (confidence d))),
      (''file_hash'', JStr (file_hash d)),
      (''timestamp'', JStr (timestamp d))]"

definition metadataHash :: "(string \<Rightarrow> string) \<Rightarrow> (real \<Rightarrow> string) \<Rightarrow> DockingResult \<Rightarrow> string" where
  "metadataHash sha256 numstr d = sha256 (JSON_stringify numstr (metadata_props d))"

definition createSolanaProof ::
  "(string \<Rightarrow> string) \<Rightarrow> (real \<Rightarrow> string) \<Rightarrow> Settings \<Rightarrow> DockingResult \<Rightarrow> string option" where
  "createSolanaProof sha256 numstr settings d =
     (if falsy (SOLANA_RPC_URL settings) \<or> falsy (SOLANA_PRIVATE_KEY settings) then None
      else Some (''MOCK_'' @ take 16 (metadataHash sha256 numstr d)))"

text \<open>
  The handler; \<open>ts\<close> is the clock's ISO string and \<open>new_id\<close> what \<open>runtime.generateId()\<close>
  returns.
\<close>

definition storeMetadata_handler ::
  "(string \<Rightarrow> string) \<Rightarrow> (real \<Rightarrow> string) \<Rightarrow> Settings \<Rightarrow> StoreOptions \<Rightarrow> Memory \<Rightarrow> string
     \<Rightarrow> string \<Rightarrow> sys \<Rightarrow> DockingResult ActionResult \<times> sys" where
  "storeMetadata_handler sha256 numstr settings options message ts new_id s =
     (case orElse (prev_tag_data options) (taggedData options) of
        None \<Rightarrow>
          (\<lparr> ar_text = ''No tagged docking data found. Please run AUTO_TAG_DOCKING_RESULT first.'',
             ar_success = False, ar_error = Some ''MISSING_TAGGED_DATA'', ar_data = None \<rparr>, s)
      | Some td \<Rightarrow>
          (let storedData = storeInDatabase td ts;
               tx = createSolanaProof sha256 numstr settings storedData;
               finalResult = storedData\<lparr> solana_tx := tx \<rparr>;
               mem = \<lparr> m_id = new_id, entityId = entityId message, roomId = roomId message,
                       m_content = \<lparr> c_text = None, c_type = Some ''docking_result'',
                                   c_data = Some finalResult, c_docking_result = None \<rparr> \<rparr>
           in (\<lparr> ar_text = ''Metadata stored with blockchain proof'', ar_success = True,
                  ar_error = None, ar_data = Some finalResult \<rparr>,
               s\<lparr> memories := memories s @ [mem] \<rparr>)))"

section \<open>QUERY\_DOCKING\_DATA\<close>

record QueryFilters =
  q_protein :: "string option"
  q_ligand :: "string option"
  minEnergy :: "jsnum option"
  maxEnergy :: "jsnum option"
  tool :: "string option"
  q_tags :: "string list option"

text \<open>
  Group 1 of a match is never empty, so in \<open>belowMatch?.[1] || lessThanMatch?.[1] || "0"\<close>
  the first match that exists supplies the text and the \<open>"0"\<close> is never reached.
\<close>

definition parseQueryFilters :: "string \<Rightarrow> QueryFilters" where
  "parseQueryFilters queryText =
     (let lowerQuery = toLowerCase queryText;
          proteinMatch = js_match [Lit True ''protein'', Plus Space, Cap Word] lowerQuery;
          ligandMatch = js_match [Lit True ''ligand'', Plus Space, Cap Word] lowerQuery;
          belowMatch = js_match [Lit False ''below'', Plus Space, Cap NumChar] lowerQuery;
          aboveMatch = js_match [Lit False ''above'', Plus Space, Cap NumChar] lowerQuery;
          lessThanMatch = js_match [Alt [''less than'', ''<''], Star Space, Cap NumChar] lowerQuery;
          greaterThanMatch =
            js_match [Alt [''greater than'', ''>''], Star Space, Cap NumChar] lowerQuery;
          tags = [];
          tags = (if str_includes lowerQuery ''strong binder'' then tags @ [''strong_binder''] else tags);
          tags = (if str_includes lowerQuery ''weak binder'' then tags @ [''weak_binder''] else tags);
          tags = (if str_includes lowerQuery ''moderate binder''
                  then tags @ [''moderate_binder''] else tags)
      in \<lparr> q_protein = map_option toUpperCase proteinMatch,
           q_ligand = map_option toUpperCase ligandMatch,
           minEnergy = map_option parseFloat (orElse aboveMatch greaterThanMatch),
           maxEnergy = map_option parseFloat (orElse belowMatch lessThanMatch),
           tool = (if str_includes lowerQuery ''vina'' then Some ''AutoDock Vina''
                   else if str_includes lowerQuery ''gold'' then Some ''GOLD''
                   else if str_includes lowerQuery ''glide'' then Some ''Glide''
                   else None),
           q_tags = (if length tags > 0 then Some tags else None) \<rparr>)"

text \<open>
  \<open>queryDatabase\<close> on \<open>mems\<close>, the array that \<open>runtime.getMemories\<close> returned. A string
  filter applies when it is truthy (\<open>if (filters.protein)\<close>), an energy bound when it is
  not \<open>undefined\<close>, the tag filter when the list is there and not empty.
\<close>

definition queryDatabase :: "Memory list \<Rightarrow> QueryFilters \<Rightarrow> DockingResult list" where
  "queryDatabase mems filters =
     (let dockingMemories = filter (\<lambda>m. c_docking_result (m_content m) \<noteq> None) mems;
          results = concat (map (\<lambda>m. case c_docking_result (m_content m) of
                                        Some (Some r) \<Rightarrow> [r] | _ \<Rightarrow> []) dockingMemories);
          results = (if \<not> falsy (q_protein filters)
                     then filter (\<lambda>r. str_includes (toUpperCase (protein r))
                                         (toUpperCase (the (q_protein filters)))) results
                     else results);
          results = (if \<not> falsy (q_ligand filters)
                     then filter (\<lambda>r. str_includes (toUpperCase (ligand r))
                                         (toUpperCase (the (q_ligand filters)))) results
                     else results);
          results = (if minEnergy filters \<noteq> None
                     then filter (\<lambda>r. js_ge (binding_energy r) (the (minEnergy filters))) results
                     else results);
          results = (if maxEnergy filters \<noteq> None
                     then filter (\<lambda>r. js_le (binding_energy r) (the (maxEnergy filters))) results
                     else results);
          results = (if \<not> falsy (tool filters)
                     then filter (\<lambda>r. str_includes (toLowerCase (docking_tool r))
                                         (toLowerCase (the (tool filters)))) results
                     else results);
          results = (if q_tags filters \<noteq> None \<and> length (the (q_tags filters)) > 0
                     then filter (\<lambda>r. list_ex (\<lambda>tag. tag \<in> set (tags r)) (the (q_tags filters)))
                            results
                     else results)
      in results)"

text \<open>Decimal text of a natural number, for \<open>${results.length}\<close>.\<close>

function nat_str :: "nat \<Rightarrow> string" where
  "nat_str n = (if n < 10 then [digit_chars ! n] else nat_str (n div 10) @ [digit_chars ! (n mod 10)])"
  by pat_completeness auto
termination
  by (relation "measure id") auto

text \<open>
  The handler. \<open>getMemories\<close> is the runtime's \<open>getMemories\<close> call for the agent's room
  with \<open>count: 100\<close>, as a function of the memory table.
\<close>

definition query_handler ::
  "(Memory list \<Rightarrow> Memory list) \<Rightarrow> Memory \<Rightarrow> sys \<Rightarrow> DockingResult list ActionResult \<times> sys" where
  "query_handler getMemories message s =
     (let queryText = message_text message;
          filters = parseQueryFilters queryText;
          results = queryDatabase (getMemories (memories s)) filters
      in if length results = 0
         then (\<lparr> ar_text = ''No results found'', ar_success = True, ar_error = None,
                 ar_data = Some [] \<rparr>, s)
         else (\<lparr> ar_text = ''Found '' @ nat_str (length results) @ '' docking results'',
                 ar_success = True, ar_error = None, ar_data = Some results \<rparr>, s))"

section \<open>Sequences of actions\<close>

text \<open>
  One invocation of an action with the inputs it reads from outside: the message, the
  options, the settings, the clock's timestamp and the fresh memory id.
\<close>

datatype action =
    PARSE_DOCKING_FILE Memory
  | AUTO_TAG_DOCKING_RESULT AutoTagOptions
  | STORE_METADATA Settings StoreOptions Memory string string
  | PROCESS_DOCKING_WORKFLOW Memory string
  | QUERY_DOCKING_DATA "Memory list \<Rightarrow> Memory list" Memory

fun step :: "(string \<Rightarrow> string) \<Rightarrow> (real \<Rightarrow> string) \<Rightarrow> action \<Rightarrow> sys \<Rightarrow> sys" where
  "step sha256 numstr (PARSE_DOCKING_FILE m) s = snd (parseDockingFile_handler sha256 m s)"
| "step sha256 numstr (AUTO_TAG_DOCKING_RESULT opts) s = snd (autoTag_handler opts s)"
| "step sha256 numstr (STORE_METADATA settings opts m ts new_id) s =
     snd (storeMetadata_handler sha256 numstr settings opts m ts new_id s)"
| "step sha256 numstr (PROCESS_DOCKING_WORKFLOW m ts) s = snd (workflow_handler sha256 numstr m ts s)"
| "step sha256 numstr (QUERY_DOCKING_DATA getMemories m) s = snd (query_handler getMemories m s)"

fun run :: "(string \<Rightarrow> string) \<Rightarrow> (real \<Rightarrow> string) \<Rightarrow> action list \<Rightarrow> sys \<Rightarrow> sys" where
  "run sha256 numstr [] s = s"
| "run sha256 numstr (a # as) s = run sha256 numstr as (step sha256 numstr a s)"

section \<open>Notions the properties are stated with, and example inputs\<close>

text \<open>The energy-tier tags, and the tier tags among a record's tags.\<close>

definition tier_tags :: "string list" where
  "tier_tags = [''very_strong_binder'', ''strong_binder'', ''moderate_binder'',
                ''weak_binder'', ''very_weak_binder'']"

definition tier_of :: "string list \<Rightarrow> string list" where
  "tier_of ts = filter (\<lambda>t. t \<in> set tier_tags) ts"

text \<open>Example inputs: records, options, settings and a user message with the text \<open>t\<close>.\<close>

definition boundary_record :: ParsedDockingData where
  "boundary_record =
     \<lparr> protein = ''1ABC'', ligand = ''MOL123'', binding_energy = Num (- 10),
       docking_tool = ''AutoDock Vina'', file_hash = ''00'' \<rparr>"

text \<open>A bonus that counts when its condition holds; an energy that is a negative number.\<close>

definition bonus :: "bool \<Rightarrow> real \<Rightarrow> real" where
  "bonus b x = (if b then x else 0)"

definition negative_energy :: "jsnum \<Rightarrow> bool" where
  "negative_energy x = (case x of Num e \<Rightarrow> e \<noteq> 0 \<and> e < 0 | NaN \<Rightarrow> False)"

definition no_parse_data :: AutoTagOptions where
  "no_parse_data = \<lparr> prev_parse_data = None, parsedData = None \<rparr>"

definition no_tag_data :: StoreOptions where
  "no_tag_data = \<lparr> prev_tag_data = None, taggedData = None \<rparr>"

definition no_settings :: Settings where
  "no_settings = \<lparr> SOLANA_RPC_URL = None, SOLANA_PRIVATE_KEY = None \<rparr>"

definition user_message :: "string \<Rightarrow> Memory" where
  "user_message t =
     \<lparr> m_id = ''msg-1'', entityId = ''user-1'', roomId = ''room-1'',
       m_content = \<lparr> c_text = Some t, c_type = None, c_data = None, c_docking_result = None \<rparr> \<rparr>"

definition unknown_record :: ParsedDockingData where
  "unknown_record =
     \<lparr> protein = ''UNKNOWN'', ligand = ''UNKNOWN'', binding_energy = Num 0,
       docking_tool = ''Unknown'', file_hash = ''00'' \<rparr>"

definition generic_record :: ParsedDockingData where
  "generic_record =
     \<lparr> protein = ''GENERIC_PROTEIN'', ligand = ''GENERIC_LIGAND'', binding_energy = Num (- 6.0),
       docking_tool = ''Unknown'', file_hash = ''00'' \<rparr>"

text \<open>The six banner strings that select a tool's ruleset.\<close>

definition has_marker :: "string \<Rightarrow> bool" where
  "has_marker content =
     (str_includes content ''AutoDock Vina'' \<or> str_includes content ''VINA RESULT'' \<or>
      str_includes content ''GOLD'' \<or> str_includes content ''Gold Score'' \<or>
      str_includes content ''Glide'' \<or> str_includes content ''GLIDE'')"

text \<open>
  Closed examples need some function in the place of the hash; the results do not depend
  on the choice.
\<close>

definition stub_sha256 :: "string \<Rightarrow> string" where
  "stub_sha256 content = ''9f86d081884c7d659a2feaa0c55ad015a3bf4f1b2b0b822cd15d6c15b0f00a08''"

text \<open>
  Containment up to letter case, in the words of the specification: some substring of
  \<open>s\<close> with the length of \<open>t\<close> equals \<open>t\<close> when letter case is ignored.
\<close>

definition eq_ci :: "string \<Rightarrow> string \<Rightarrow> bool" where
  "eq_ci a b = (toLowerCase a = toLowerCase b)"

definition contains_ci :: "string \<Rightarrow> string \<Rightarrow> bool" where
  "contains_ci s t =
     (length t \<le> length s \<and>
      list_ex (\<lambda>i. eq_ci (take (length t) (drop i s)) t) [0 ..< Suc (length s - length t)])"

text \<open>The records that \<open>queryDatabase\<close> reads out of the memories, in their order.\<close>

definition docking_results :: "Memory list \<Rightarrow> DockingResult list" where
  "docking_results mems =
     concat (map (\<lambda>m. case c_docking_result (m_content m) of Some (Some r) \<Rightarrow> [r] | _ \<Rightarrow> []) mems)"

text \<open>
  The filter semantics in the words of the specification: a conjunction over the fields
  that are present; protein, ligand and tool match by containment up to letter case, the
  energy bounds are inclusive, the tag filter asks for one of the requested tags.
\<close>

definition spec_matches :: "QueryFilters \<Rightarrow> DockingResult \<Rightarrow> bool" where
  "spec_matches f r =
     ((case q_protein f of None \<Rightarrow> True | Some p \<Rightarrow> contains_ci (protein r) p) \<and>
      (case q_ligand f of None \<Rightarrow> True | Some l \<Rightarrow> contains_ci (ligand r) l) \<and>
      (case minEnergy f of None \<Rightarrow> True | Some lo \<Rightarrow> js_le lo (binding_energy r)) \<and>
      (case maxEnergy f of None \<Rightarrow> True | Some hi \<Rightarrow> js_le (binding_energy r) hi) \<and>
      (case tool f of None \<Rightarrow> True | Some t \<Rightarrow> contains_ci (docking_tool r) t) \<and>
      (case q_tags f of None \<Rightarrow> True | Some ts \<Rightarrow> list_ex (\<lambda>t. t \<in> set (tags r)) ts))"

text \<open>The filter for the query "protein 1ABC, energy at most -7.0".\<close>

definition filter_1abc_below_7 :: QueryFilters where
  "filter_1abc_below_7 =
     \<lparr> q_protein = Some ''1ABC'', q_ligand = None, minEnergy = None,
       maxEnergy = Some (Num (- 7.0)), tool = None, q_tags = None \<rparr>"

text \<open>A memory that does carry a record under the key \<open>docking_result\<close>, and three of them.\<close>

definition memory_of_result :: "DockingResult \<Rightarrow> Memory" where
  "memory_of_result r =
     \<lparr> m_id = ''mem-0'', entityId = ''agent-1'', roomId = ''agent-1'',
       m_content = \<lparr> c_text = None, c_type = None, c_data = None,
                     c_docking_result = Some (Some r) \<rparr> \<rparr>"

definition result_with :: "string \<Rightarrow> real \<Rightarrow> DockingResult" where
  "result_with p e =
     \<lparr> protein = p, ligand = ''MOL123'', binding_energy = Num e, docking_tool = ''GOLD'',
       file_hash = ''00'', tags = [''strong_binder''], confidence = 1,
       timestamp = ''2025-12-28T10:00:00.000Z'', solana_tx = None \<rparr>"

definition example_memories :: "Memory list" where
  "example_memories =
     [memory_of_result (result_with ''x1abc_chainA'' (- 7)),
      memory_of_result (result_with ''1ABC'' (- 6.5)),
      memory_of_result (result_with ''2XYZ'' (- 9))]"

text \<open>The memory that \<open>STORE_METADATA\<close> creates for the result \<open>r\<close>.\<close>

definition stored_memory :: "Memory \<Rightarrow> string \<Rightarrow> DockingResult \<Rightarrow> Memory" where
  "stored_memory message new_id r =
     \<lparr> m_id = new_id, entityId = entityId message, roomId = roomId message,
       m_content = \<lparr> c_text = None, c_type = Some ''docking_result'',
                     c_data = Some r, c_docking_result = None \<rparr> \<rparr>"

text \<open>
  A stand-in for the number formatting in closed examples, and one submission with the
  classified record the workflow derives from it.
\<close>

definition stub_numstr :: "real \<Rightarrow> string" where
  "stub_numstr x = ''0''"

definition example_text :: string where
  "example_text = ''Parse this Vina result: receptor: 1ABC, ligand: XYZ, energy: -8.5''"

definition example_ts :: string where
  "example_ts = ''2025-12-28T10:00:00.000Z''"

definition example_tagged :: TaggedDockingData where
  "example_tagged =
     \<lparr> protein = ''1ABC'', ligand = ''XYZ'', binding_energy = Num (- 8.5),
       docking_tool = ''AutoDock Vina'', file_hash = stub_sha256 example_text,
       tags = [''strong_binder'', ''tool_autodock_vina'', ''protein_identified'',
               ''ligand_identified''],
       confidence = 1 \<rparr>"

definition tag_data_present :: StoreOptions where
  "tag_data_present = \<lparr> prev_tag_data = Some example_tagged, taggedData = None \<rparr>"

text \<open>Every reference in \<open>global.dockingResults\<close> points into the heap.\<close>

definition refs_valid :: "sys \<Rightarrow> bool" where
  "refs_valid s = (case dockingResults s of None \<Rightarrow> True
                   | Some refs \<Rightarrow> list_all (\<lambda>a. a < length (heap s)) refs)"

definition example_actions :: "action list" where
  "example_actions =
     [STORE_METADATA no_settings tag_data_present (user_message ''Store this docking result'')
        example_ts ''mem-1'',
      QUERY_DOCKING_DATA (\<lambda>ms. ms) (user_message ''Show me all docking results''),
      PROCESS_DOCKING_WORKFLOW (user_message ''GOLD run, Protein: 2XYZ'') example_ts]"

section \<open>The classifier\<close>

lemma tool_tag_no_tier: "''tool_'' @ x \<notin> set tier_tags"
  by (simp add: tier_tags_def)

lemma applyTags_tags:
  "tags (applyTags d) =
     [if js_lt (binding_energy d) (Num (- 10)) then ''very_strong_binder''
      else if js_lt (binding_energy d) (Num (- 8)) then ''strong_binder''
      else if js_lt (binding_energy d) (Num (- 6)) then ''moderate_binder''
      else if js_lt (binding_energy d) (Num (- 4)) then ''weak_binder''
      else ''very_weak_binder'',
      ''tool_'' @ replace_ws (toLowerCase (docking_tool d)),
      if protein d \<noteq> ''UNKNOWN'' \<and> protein d \<noteq> ''GENERIC_PROTEIN''
      then ''protein_identified'' else ''protein_unknown'',
      if ligand d \<noteq> ''UNKNOWN'' \<and> ligand d \<noteq> ''GENERIC_LIGAND''
      then ''ligand_identified'' else ''ligand_unknown'']"
  by (simp add: applyTags_def Let_def)

lemma wf_applyTags_tags:
  "tags (wf_applyTags d) =
     [if js_lt (binding_energy d) (Num (- 10)) then ''very_strong_binder''
      else if js_lt (binding_energy d) (Num (- 8)) then ''strong_binder''
      else if js_lt (binding_energy d) (Num (- 6)) then ''moderate_binder''
      else if js_lt (binding_energy d) (Num (- 4)) then ''weak_binder''
      else ''very_weak_binder'',
      ''tool_'' @ replace_ws (toLowerCase (docking_tool d))]
     @ (if protein d \<noteq> ''UNKNOWN'' then [''protein_identified''] else [])
     @ (if ligand d \<noteq> ''UNKNOWN'' then [''ligand_identified''] else [])"
  by (simp add: wf_applyTags_def Let_def)

lemma tier_of_applyTags:
  "tier_of (tags (applyTags d)) =
     [if js_lt (binding_energy d) (Num (- 10)) then ''very_strong_binder''
      else if js_lt (binding_energy d) (Num (- 8)) then ''strong_binder''
      else if js_lt (binding_energy d) (Num (- 6)) then ''moderate_binder''
      else if js_lt (binding_energy d) (Num (- 4)) then ''weak_binder''
      else ''very_weak_binder'']"
  unfolding applyTags_tags tier_of_def
  by (simp add: tier_tags_def)

lemma tier_of_wf_applyTags:
  "tier_of (tags (wf_applyTags d)) =
     [if js_lt (binding_energy d) (Num (- 10)) then ''very_strong_binder''
      else if js_lt (binding_energy d) (Num (- 8)) then ''strong_binder''
      else if js_lt (binding_energy d) (Num (- 6)) then ''moderate_binder''
      else if js_lt (binding_energy d) (Num (- 4)) then ''weak_binder''
      else ''very_weak_binder'']"
  unfolding wf_applyTags_tags tier_of_def
  by (simp add: tier_tags_def)

text \<open>
  C4. Both classifiers (the standalone \<open>applyTags\<close> and the workflow's copy) put exactly
  one energy-tier tag into the tag list of a record whose binding energy is the real
  number \<open>e\<close>, and the five tiers partition the real line with half-open intervals:
  below \<open>-10\<close> very strong, \<open>[-10, -8)\<close> strong, \<open>[-8, -6)\<close> moderate, \<open>[-6, -4)\<close> weak,
  from \<open>-4\<close> upwards very weak. The boundary \<open>-10\<close> itself is tagged strong.
\<close>

theorem energy_tier_partition:
  fixes e :: real
  assumes "binding_energy d = Num e"
  shows "(e < - 10 \<longrightarrow> tier_of (tags (applyTags d)) = [''very_strong_binder'']) \<and>
         (- 10 \<le> e \<and> e < - 8 \<longrightarrow> tier_of (tags (applyTags d)) = [''strong_binder'']) \<and>
         (- 8 \<le> e \<and> e < - 6 \<longrightarrow> tier_of (tags (applyTags d)) = [''moderate_binder'']) \<and>
         (- 6 \<le> e \<and> e < - 4 \<longrightarrow> tier_of (tags (applyTags d)) = [''weak_binder'']) \<and>
         (- 4 \<le> e \<longrightarrow> tier_of (tags (applyTags d)) = [''very_weak_binder'']) \<and>
         tier_of (tags (wf_applyTags d)) = tier_of (tags (applyTags d))"
  using assms by (simp add: tier_of_applyTags tier_of_wf_applyTags)

theorem energy_tier_partition_witness:
  "binding_energy boundary_record = Num (- 10) \<and>
   tier_of (tags (applyTags boundary_record)) = [''strong_binder''] \<and>
   tier_of (tags (wf_applyTags boundary_record)) = [''strong_binder'']"
proof -
  have h: "binding_energy boundary_record = Num (- 10)"
    by (simp add: boundary_record_def)
  show ?thesis
    using h energy_tier_partition [OF h] by simp
qed

lemma negative_energy_js: "(js_neq x (Num 0) \<and> js_lt x (Num 0)) = negative_energy x"
  by (cases x) (auto simp: negative_energy_def)

text \<open>
  C5. The confidence is the sum of four independent bonuses, capped at \<open>1\<close>: \<open>0.3\<close> for
  an identified protein, \<open>0.3\<close> for an identified ligand, \<open>0.2\<close> for a binding energy that
  is a negative number, \<open>0.2\<close> for a tool other than \<open>Unknown\<close>; it lies between \<open>0\<close> and
  \<open>1\<close>. For the standalone classifier a protein or ligand is identified when it is
  neither \<open>UNKNOWN\<close> nor the generic fallback's name, for the workflow's classifier when
  it is not \<open>UNKNOWN\<close>.
\<close>

theorem confidence_additive_capped:
  "confidence (applyTags d) = calculateConfidence d \<and>
   calculateConfidence d =
     min 1 (bonus (protein d \<noteq> ''UNKNOWN'' \<and> protein d \<noteq> ''GENERIC_PROTEIN'') 0.3
          + bonus (ligand d \<noteq> ''UNKNOWN'' \<and> ligand d \<noteq> ''GENERIC_LIGAND'') 0.3
          + bonus (negative_energy (binding_energy d)) 0.2
          + bonus (docking_tool d \<noteq> ''Unknown'') 0.2) \<and>
   confidence (wf_applyTags d) =
     min 1 (bonus (protein d \<noteq> ''UNKNOWN'') 0.3
          + bonus (ligand d \<noteq> ''UNKNOWN'') 0.3
          + bonus (negative_energy (binding_energy d)) 0.2
          + bonus (docking_tool d \<noteq> ''Unknown'') 0.2) \<and>
   0 \<le> confidence (applyTags d) \<and> confidence (applyTags d) \<le> 1 \<and>
   0 \<le> confidence (wf_applyTags d) \<and> confidence (wf_applyTags d) \<le> 1"
proof -
  have a: "confidence (applyTags d) = calculateConfidence d"
    by (simp add: applyTags_def Let_def)
  have b: "calculateConfidence d =
     min 1 (bonus (protein d \<noteq> ''UNKNOWN'' \<and> protein d \<noteq> ''GENERIC_PROTEIN'') 0.3
          + bonus (ligand d \<noteq> ''UNKNOWN'' \<and> ligand d \<noteq> ''GENERIC_LIGAND'') 0.3
          + bonus (negative_energy (binding_energy d)) 0.2
          + bonus (docking_tool d \<noteq> ''Unknown'') 0.2)"
    unfolding calculateConfidence_def Let_def negative_energy_js bonus_def
    by (simp add: min.commute)
  have c: "confidence (wf_applyTags d) =
     min 1 (bonus (protein d \<noteq> ''UNKNOWN'') 0.3
          + bonus (ligand d \<noteq> ''UNKNOWN'') 0.3
          + bonus (negative_energy (binding_energy d)) 0.2
          + bonus (docking_tool d \<noteq> ''Unknown'') 0.2)"
    unfolding wf_applyTags_def Let_def negative_energy_js bonus_def
    by (simp add: min.commute)
  have d1: "0 \<le> calculateConfidence d" "calculateConfidence d \<le> 1"
    unfolding b bonus_def by simp_all
  have d2: "0 \<le> confidence (wf_applyTags d)" "confidence (wf_applyTags d) \<le> 1"
    unfolding c bonus_def by simp_all
  from a b c d1 d2 show ?thesis by simp
qed

theorem confidence_additive_capped_witness:
  "confidence (applyTags boundary_record) = 1 \<and>
   confidence (wf_applyTags boundary_record) = 1"
  using confidence_additive_capped [of boundary_record]
  by (simp add: boundary_record_def bonus_def negative_energy_def)

section \<open>Stage order\<close>

text \<open>
  C9. The tagging handler called with neither a previous parse result nor
  \<open>options.parsedData\<close> returns a failure whose error is \<open>MISSING_PARSED_DATA\<close>, and the
  store handler called with neither a previous tagging result nor \<open>options.taggedData\<close>
  returns a failure whose error is \<open>MISSING_TAGGED_DATA\<close>; both leave the shared state
  as it was.
\<close>

theorem missing_upstream_data_rejected:
  "(prev_parse_data po = None \<and> parsedData po = None \<longrightarrow>
      ar_success (fst (autoTag_handler po s)) = False \<and>
      ar_error (fst (autoTag_handler po s)) = Some ''MISSING_PARSED_DATA'' \<and>
      ar_data (fst (autoTag_handler po s)) = None \<and>
      snd (autoTag_handler po s) = s) \<and>
   (prev_tag_data so = None \<and> taggedData so = None \<longrightarrow>
      ar_success (fst (storeMetadata_handler sha256 numstr settings so message ts new_id s)) = False \<and>
      ar_error (fst (storeMetadata_handler sha256 numstr settings so message ts new_id s))
        = Some ''MISSING_TAGGED_DATA'' \<and>
      ar_data (fst (storeMetadata_handler sha256 numstr settings so message ts new_id s)) = None \<and>
      snd (storeMetadata_handler sha256 numstr settings so message ts new_id s) = s)"
  by (simp add: autoTag_handler_def storeMetadata_handler_def orElse_def)

theorem missing_upstream_data_rejected_witness:
  "prev_parse_data no_parse_data = None \<and> parsedData no_parse_data = None \<and>
   ar_error (fst (autoTag_handler no_parse_data init_sys)) = Some ''MISSING_PARSED_DATA'' \<and>
   snd (autoTag_handler no_parse_data init_sys) = init_sys \<and>
   prev_tag_data no_tag_data = None \<and> taggedData no_tag_data = None \<and>
   ar_error (fst (storeMetadata_handler (\<lambda>x. x) (\<lambda>x. ''0'') no_settings no_tag_data
                    (user_message ''Store this docking result'') ''2025-12-28T10:00:00.000Z''
                    ''mem-1'' init_sys)) = Some ''MISSING_TAGGED_DATA'' \<and>
   snd (storeMetadata_handler (\<lambda>x. x) (\<lambda>x. ''0'') no_settings no_tag_data
          (user_message ''Store this docking result'') ''2025-12-28T10:00:00.000Z''
          ''mem-1'' init_sys) = init_sys"
proof -
  have h1: "prev_parse_data no_parse_data = None \<and> parsedData no_parse_data = None"
    by (simp add: no_parse_data_def)
  have h2: "prev_tag_data no_tag_data = None \<and> taggedData no_tag_data = None"
    by (simp add: no_tag_data_def)
  show ?thesis
    using h1 h2
      missing_upstream_data_rejected [of no_parse_data init_sys no_tag_data "\<lambda>x. x" "\<lambda>x. ''0''"
        no_settings "user_message ''Store this docking result''" "''2025-12-28T10:00:00.000Z''"
        "''mem-1''"]
    by simp
qed

section \<open>The two classifiers compared\<close>

text \<open>
  The tag lists of the two classifiers are equal exactly on the records whose protein
  and ligand are neither \<open>UNKNOWN\<close> nor the generic fallback's names.
\<close>

lemma classifiers_agree_iff:
  "(tags (wf_applyTags d) = tags (applyTags d)) =
     (protein d \<noteq> ''UNKNOWN'' \<and> protein d \<noteq> ''GENERIC_PROTEIN'' \<and>
      ligand d \<noteq> ''UNKNOWN'' \<and> ligand d \<noteq> ''GENERIC_LIGAND'')"
  unfolding applyTags_tags wf_applyTags_tags by auto

text \<open>
  C10. The workflow's copy of the classifier does not compute what the standalone
  classifier computes. On the record with protein and ligand \<open>UNKNOWN\<close> the standalone
  classifier adds the tags \<open>protein_unknown\<close> and \<open>ligand_unknown\<close>, the copy adds
  nothing; on the generic fallback's record the standalone classifier gives confidence
  \<open>0.2\<close> and the tags \<open>protein_unknown\<close>, \<open>ligand_unknown\<close>, the copy gives confidence
  \<open>0.8\<close> and the tags \<open>protein_identified\<close>, \<open>ligand_identified\<close>.
\<close>

theorem workflow_classifier_differs:
  "tags (applyTags unknown_record) =
     [''very_weak_binder'', ''tool_unknown'', ''protein_unknown'', ''ligand_unknown''] \<and>
   tags (wf_applyTags unknown_record) = [''very_weak_binder'', ''tool_unknown''] \<and>
   tags (applyTags generic_record) =
     [''weak_binder'', ''tool_unknown'', ''protein_unknown'', ''ligand_unknown''] \<and>
   tags (wf_applyTags generic_record) =
     [''weak_binder'', ''tool_unknown'', ''protein_identified'', ''ligand_identified''] \<and>
   confidence (applyTags generic_record) = 0.2 \<and>
   confidence (wf_applyTags generic_record) = 0.8"
proof -
  have a: "tags (applyTags unknown_record) =
     [''very_weak_binder'', ''tool_unknown'', ''protein_unknown'', ''ligand_unknown'']"
    by code_simp
  have b: "tags (wf_applyTags unknown_record) = [''very_weak_binder'', ''tool_unknown'']"
    by code_simp
  have c: "tags (applyTags generic_record) =
     [''weak_binder'', ''tool_unknown'', ''protein_unknown'', ''ligand_unknown'']"
    by code_simp
  have d: "tags (wf_applyTags generic_record) =
     [''weak_binder'', ''tool_unknown'', ''protein_identified'', ''ligand_identified'']"
    by code_simp
  have e: "confidence (applyTags generic_record) = 0.2 \<and>
           confidence (wf_applyTags generic_record) = 0.8"
    by (simp add: generic_record_def applyTags_def wf_applyTags_def calculateConfidence_def
        Let_def)
  from a b c d e show ?thesis by simp
qed

section \<open>Field extraction\<close>

text \<open>
  C2. Where the pattern rules of the selected format find nothing, only the Vina and
  GOLD rulesets fall back to \<open>UNKNOWN\<close> and \<open>0\<close>. A text with the Glide marker and no
  field gets the protein \<open>MOCK_PROTEIN\<close>, the ligand \<open>MOCK_LIGAND\<close> and the binding
  energy \<open>-7.5\<close>, which the classifier then rates with confidence \<open>1\<close>; a text of
  ten or more characters without any marker gets \<open>GENERIC_PROTEIN\<close>, \<open>GENERIC_LIGAND\<close>
  and \<open>-6\<close> whatever it contains.
\<close>

theorem unlocated_fields_get_mock_values:
  "js_match [Lit True ''Receptor'', Plus Sep, Cap Word] ''Glide run, no fields'' = None \<and>
   js_match [Lit True ''Title'', Plus Sep, Cap Word] ''Glide run, no fields'' = None \<and>
   js_match [Lit True ''Docking'', Plus Space, Lit True ''Score'', Plus Sep, Cap NumChar]
     ''Glide run, no fields'' = None \<and>
   parseDockingContent sha256 ''Glide run, no fields'' =
     Some \<lparr> protein = ''MOCK_PROTEIN'', ligand = ''MOCK_LIGAND'', binding_energy = Num (- 7.5),
            docking_tool = ''Glide'', file_hash = sha256 ''Glide run, no fields'' \<rparr> \<and>
   parseDockingContent sha256 ''a file with no fields'' =
     Some \<lparr> protein = ''GENERIC_PROTEIN'', ligand = ''GENERIC_LIGAND'', binding_energy = Num (- 6),
            docking_tool = ''Unknown'', file_hash = sha256 ''a file with no fields'' \<rparr> \<and>
   parseDockingContent sha256 ''VINA RESULT, no fields'' =
     Some \<lparr> protein = ''UNKNOWN'', ligand = ''UNKNOWN'', binding_energy = Num 0,
            docking_tool = ''AutoDock Vina'', file_hash = sha256 ''VINA RESULT, no fields'' \<rparr> \<and>
   confidence (applyTags (the (parseDockingContent sha256 ''Glide run, no fields''))) = 1"
proof -
  have a: "js_match [Lit True ''Receptor'', Plus Sep, Cap Word] ''Glide run, no fields'' = None"
    by code_simp
  have b: "js_match [Lit True ''Title'', Plus Sep, Cap Word] ''Glide run, no fields'' = None"
    by code_simp
  have c: "js_match [Lit True ''Docking'', Plus Space, Lit True ''Score'', Plus Sep, Cap NumChar]
     ''Glide run, no fields'' = None"
    by code_simp
  have d: "parseDockingContent sha256 ''Glide run, no fields'' =
     Some \<lparr> protein = ''MOCK_PROTEIN'', ligand = ''MOCK_LIGAND'', binding_energy = Num (- 7.5),
            docking_tool = ''Glide'', file_hash = sha256 ''Glide run, no fields'' \<rparr>"
    by code_simp
  have e: "parseDockingContent sha256 ''a file with no fields'' =
     Some \<lparr> protein = ''GENERIC_PROTEIN'', ligand = ''GENERIC_LIGAND'', binding_energy = Num (- 6),
            docking_tool = ''Unknown'', file_hash = sha256 ''a file with no fields'' \<rparr>"
    by code_simp
  have f: "parseDockingContent sha256 ''VINA RESULT, no fields'' =
     Some \<lparr> protein = ''UNKNOWN'', ligand = ''UNKNOWN'', binding_energy = Num 0,
            docking_tool = ''AutoDock Vina'', file_hash = sha256 ''VINA RESULT, no fields'' \<rparr>"
    by code_simp
  have g: "confidence (applyTags (the (parseDockingContent sha256 ''Glide run, no fields''))) = 1"
    unfolding d by (simp add: applyTags_def calculateConfidence_def Let_def)
  from a b c d e f g show ?thesis by simp
qed

text \<open>
  C6, as stated, fails: the text \<open>GOLD\<close> has four characters and is accepted, by the GOLD
  ruleset.
\<close>

theorem short_input_accepted_counterexample:
  "length ''GOLD'' < 10 \<and>
   parseDockingContent stub_sha256 ''GOLD'' =
     Some \<lparr> protein = ''UNKNOWN'', ligand = ''UNKNOWN'', binding_energy = Num 0,
            docking_tool = ''GOLD'', file_hash = stub_sha256 ''GOLD'' \<rparr>"
  by code_simp

text \<open>
  C6, amended. \<open>parseDockingContent\<close> rejects a text exactly when it contains none of the
  tool markers and has fewer than ten characters: the length test guards the generic
  fallback only. The handler then reports \<open>PARSE_FAILED\<close>, and in every case it leaves
  the shared state as it was.
\<close>

theorem parse_rejects_iff_unmarked_and_short:
  "(parseDockingContent sha256 content = None) = (\<not> has_marker content \<and> length content < 10) \<and>
   (ar_error (fst (parseDockingFile_handler sha256 m s)) = Some ''PARSE_FAILED'')
     = (\<not> has_marker (message_text m) \<and> length (message_text m) < 10) \<and>
   snd (parseDockingFile_handler sha256 m s) = s"
proof -
  have a: "(parseDockingContent sha256 c = None) = (\<not> has_marker c \<and> length c < 10)" for c
    by (simp add: parseDockingContent_def has_marker_def parseVinaFormat_def
        parseGoldFormat_def parseGlideFormat_def parseGenericFormat_def Let_def)
  have b: "(ar_error (fst (parseDockingFile_handler sha256 m s)) = Some ''PARSE_FAILED'')
             = (parseDockingContent sha256 (message_text m) = None)"
    by (simp add: parseDockingFile_handler_def Let_def split: option.splits)
  have c: "snd (parseDockingFile_handler sha256 m s) = s"
    by (simp add: parseDockingFile_handler_def Let_def split: option.splits)
  from a b c show ?thesis by simp
qed

theorem parse_rejects_iff_unmarked_and_short_witness:
  "\<not> has_marker ''too short'' \<and> length ''too short'' < 10 \<and>
   parseDockingContent stub_sha256 ''too short'' = None \<and>
   ar_error (fst (parseDockingFile_handler stub_sha256 (user_message ''too short'') init_sys))
     = Some ''PARSE_FAILED'' \<and>
   has_marker ''GOLD'' \<and> parseDockingContent stub_sha256 ''GOLD'' \<noteq> None"
proof -
  have h1: "\<not> has_marker ''too short'' \<and> length ''too short'' < 10"
    by code_simp
  have h2: "has_marker ''GOLD''"
    by code_simp
  have h3: "message_text (user_message ''too short'') = ''too short''"
    by (simp add: message_text_def user_message_def)
  show ?thesis
    using h1 h2 h3
      parse_rejects_iff_unmarked_and_short [of stub_sha256 "''too short''"
        "user_message ''too short''" init_sys]
      parse_rejects_iff_unmarked_and_short [of stub_sha256 "''GOLD''"
        "user_message ''too short''" init_sys]
    by simp
qed

section \<open>Query evaluation\<close>

lemma lower_upper_char: "toLowerChar (toUpperChar c) = toLowerChar c"
  by (simp add: toLowerChar_def toUpperChar_def upper_letters_def lower_letters_def)

lemma upper_lower_char: "toUpperChar (toLowerChar c) = toUpperChar c"
  by (simp add: toLowerChar_def toUpperChar_def upper_letters_def lower_letters_def)

lemma lower_upper_case: "toLowerCase (toUpperCase a) = toLowerCase a"
  by (simp add: toLowerCase_def toUpperCase_def lower_upper_char comp_def)

lemma upper_lower_case: "toUpperCase (toLowerCase a) = toUpperCase a"
  by (simp add: toLowerCase_def toUpperCase_def upper_lower_char comp_def)

lemma upper_eq_iff_lower_eq: "(toUpperCase a = toUpperCase b) = (toLowerCase a = toLowerCase b)"
proof
  assume "toUpperCase a = toUpperCase b"
  then have "toLowerCase (toUpperCase a) = toLowerCase (toUpperCase b)" by simp
  then show "toLowerCase a = toLowerCase b"
    by (simp only: lower_upper_case)
next
  assume "toLowerCase a = toLowerCase b"
  then have "toUpperCase (toLowerCase a) = toUpperCase (toLowerCase b)" by simp
  then show "toUpperCase a = toUpperCase b"
    by (simp only: upper_lower_case)
qed

lemma str_includes_iff:
  "str_includes s t = (\<exists>i. i + length t \<le> length s \<and> take (length t) (drop i s) = t)"
proof (induction s)
  case Nil
  then show ?case by auto
next
  case (Cons c s)
  show ?case
  proof
    assume "str_includes (c # s) t"
    then consider "starts False t (c # s)" | "str_includes s t" by auto
    then show "\<exists>i. i + length t \<le> length (c # s) \<and> take (length t) (drop i (c # s)) = t"
    proof cases
      case 1
      then have "0 + length t \<le> length (c # s) \<and> take (length t) (drop 0 (c # s)) = t"
        by (simp add: starts_def)
      then show ?thesis by blast
    next
      case 2
      with Cons.IH obtain i where "i + length t \<le> length s" "take (length t) (drop i s) = t"
        by auto
      then have "Suc i + length t \<le> length (c # s) \<and> take (length t) (drop (Suc i) (c # s)) = t"
        by simp
      then show ?thesis by blast
    qed
  next
    assume "\<exists>i. i + length t \<le> length (c # s) \<and> take (length t) (drop i (c # s)) = t"
    then obtain i where i: "i + length t \<le> length (c # s)" "take (length t) (drop i (c # s)) = t"
      by auto
    show "str_includes (c # s) t"
    proof (cases i)
      case 0
      with i show ?thesis by (simp add: starts_def)
    next
      case (Suc j)
      with i have "j + length t \<le> length s \<and> take (length t) (drop j s) = t" by simp
      with Cons.IH have "str_includes s t" by blast
      then show ?thesis by simp
    qed
  qed
qed

lemma contains_ci_iff:
  "contains_ci s t = (\<exists>i. i + length t \<le> length s \<and> eq_ci (take (length t) (drop i s)) t)"
proof -
  have "(length t \<le> length s \<and> i < Suc (length s - length t)) = (i + length t \<le> length s)" for i
    by arith
  then show ?thesis
    unfolding contains_ci_def list_ex_iff set_upt atLeastLessThan_iff Bex_def
    by (metis le0)
qed

lemma includes_lower_contains_ci: "str_includes (toLowerCase s) (toLowerCase t) = contains_ci s t"
  unfolding str_includes_iff contains_ci_iff eq_ci_def
  by (simp add: toLowerCase_def take_map drop_map)

lemma includes_upper_contains_ci: "str_includes (toUpperCase s) (toUpperCase t) = contains_ci s t"
proof -
  have "str_includes (toUpperCase s) (toUpperCase t) =
        (\<exists>i. i + length t \<le> length s \<and> toUpperCase (take (length t) (drop i s)) = toUpperCase t)"
    unfolding str_includes_iff by (simp add: toUpperCase_def take_map drop_map)
  then show ?thesis
    unfolding contains_ci_iff eq_ci_def upper_eq_iff_lower_eq .
qed

lemma contains_ci_empty: "contains_ci s []"
  unfolding contains_ci_iff eq_ci_def by (rule exI [of _ 0]) simp

lemma docking_memories_results:
  "concat (map (\<lambda>m. case c_docking_result (m_content m) of Some (Some r) \<Rightarrow> [r] | _ \<Rightarrow> [])
             (filter (\<lambda>m. c_docking_result (m_content m) \<noteq> None) mems)) = docking_results mems"
  unfolding docking_results_def by (induction mems) auto

lemma if_filter: "(if c then filter P xs else xs) = filter (\<lambda>r. c \<longrightarrow> P r) xs"
  by simp

lemma queryDatabase_filter:
  "queryDatabase mems f =
     filter (\<lambda>r.
        (\<not> falsy (q_protein f) \<longrightarrow>
           str_includes (toUpperCase (protein r)) (toUpperCase (the (q_protein f)))) \<and>
        (\<not> falsy (q_ligand f) \<longrightarrow>
           str_includes (toUpperCase (ligand r)) (toUpperCase (the (q_ligand f)))) \<and>
        (minEnergy f \<noteq> None \<longrightarrow> js_ge (binding_energy r) (the (minEnergy f))) \<and>
        (maxEnergy f \<noteq> None \<longrightarrow> js_le (binding_energy r) (the (maxEnergy f))) \<and>
        (\<not> falsy (tool f) \<longrightarrow>
           str_includes (toLowerCase (docking_tool r)) (toLowerCase (the (tool f)))) \<and>
        (q_tags f \<noteq> None \<and> length (the (q_tags f)) > 0 \<longrightarrow>
           list_ex (\<lambda>tag. tag \<in> set (tags r)) (the (q_tags f))))
       (docking_results mems)"
  unfolding queryDatabase_def Let_def docking_memories_results if_filter filter_filter
  by (rule filter_cong) auto

lemma queryDatabase_spec:
  assumes "q_tags f \<noteq> Some []"
  shows "queryDatabase mems f = filter (spec_matches f) (docking_results mems)"
proof -
  have p: "(\<not> falsy x \<longrightarrow> str_includes (toUpperCase s) (toUpperCase (the x)))
            = (case x of None \<Rightarrow> True | Some p \<Rightarrow> contains_ci s p)" for x s
    by (cases x) (auto simp: falsy_def includes_upper_contains_ci contains_ci_empty)
  have t: "(\<not> falsy x \<longrightarrow> str_includes (toLowerCase s) (toLowerCase (the x)))
            = (case x of None \<Rightarrow> True | Some p \<Rightarrow> contains_ci s p)" for x s
    by (cases x) (auto simp: falsy_def includes_lower_contains_ci contains_ci_empty)
  have lo: "(x \<noteq> None \<longrightarrow> js_ge e (the x)) = (case x of None \<Rightarrow> True | Some lo \<Rightarrow> js_le lo e)" for x e
    by (cases x) (auto simp: js_ge_def)
  have hi: "(x \<noteq> None \<longrightarrow> js_le e (the x)) = (case x of None \<Rightarrow> True | Some hi \<Rightarrow> js_le e hi)" for x e
    by (cases x) auto
  have tg: "(q_tags f \<noteq> None \<and> length (the (q_tags f)) > 0 \<longrightarrow> list_ex P (the (q_tags f)))
            = (case q_tags f of None \<Rightarrow> True | Some ts \<Rightarrow> list_ex P ts)" for P
    using assms by (cases "q_tags f") auto
  show ?thesis
    unfolding queryDatabase_filter spec_matches_def p t lo hi tg ..
qed

text \<open>
  C8. \<open>queryDatabase\<close> returns, in their order, exactly the records that satisfy every
  present filter field: on the filters that \<open>parseQueryFilters\<close> builds from any query
  text, and on every filter whose tag list is absent or not empty (the parser never
  builds an empty one). For protein \<open>1ABC\<close> and maximal energy \<open>-7.0\<close> these are the
  records whose protein contains \<open>1ABC\<close> up to letter case and whose binding energy is
  at most \<open>-7.0\<close>.
\<close>

theorem query_is_conjunction_of_present_filters:
  "queryDatabase mems (parseQueryFilters q)
     = filter (spec_matches (parseQueryFilters q)) (docking_results mems) \<and>
   (q_tags f \<noteq> Some [] \<longrightarrow> queryDatabase mems f = filter (spec_matches f) (docking_results mems)) \<and>
   queryDatabase mems filter_1abc_below_7
     = filter (\<lambda>r. contains_ci (protein r) ''1ABC'' \<and> js_le (binding_energy r) (Num (- 7.0)))
         (docking_results mems)"
proof -
  have a: "q_tags (parseQueryFilters q) \<noteq> Some []"
    by (simp add: parseQueryFilters_def Let_def)
  have b: "q_tags filter_1abc_below_7 \<noteq> Some []"
    by (simp add: filter_1abc_below_7_def)
  have c: "spec_matches filter_1abc_below_7
             = (\<lambda>r. contains_ci (protein r) ''1ABC'' \<and> js_le (binding_energy r) (Num (- 7.0)))"
    by (rule ext) (simp add: spec_matches_def filter_1abc_below_7_def)
  from queryDatabase_spec [OF a] queryDatabase_spec [OF b] queryDatabase_spec [of f] c
  show ?thesis by simp
qed

theorem query_is_conjunction_of_present_filters_witness:
  "q_tags filter_1abc_below_7 \<noteq> Some [] \<and>
   queryDatabase example_memories filter_1abc_below_7 = [result_with ''x1abc_chainA'' (- 7)]"
proof -
  have h: "q_tags filter_1abc_below_7 \<noteq> Some []"
    by (simp add: filter_1abc_below_7_def)
  have e: "filter (spec_matches filter_1abc_below_7) (docking_results example_memories)
             = [result_with ''x1abc_chainA'' (- 7)]"
    by code_simp
  from h e query_is_conjunction_of_present_filters [of example_memories "[]" filter_1abc_below_7]
  show ?thesis by simp
qed

section \<open>The digest behind the ledger reference\<close>

text \<open>
  The object that \<open>storeInDatabase\<close> builds is the one the workflow pushes, so the state
  after the push and the handler's result can be written with it.
\<close>

lemma wf_push_eq:
  "wf_push td ts s =
     (length (heap s),
      s\<lparr> heap := heap s @ [storeInDatabase td ts],
         dockingResults := Some ((case dockingResults s of None \<Rightarrow> [] | Some refs \<Rightarrow> refs)
                                  @ [length (heap s)]) \<rparr>)"
  by (simp add: wf_push_def storeInDatabase_def Let_def)

lemma workflow_handler_data:
  "ar_data (fst (workflow_handler sha256 numstr m ts s)) =
     Some ((storeInDatabase (wf_applyTags (wf_parseDockingContent sha256 (message_text m))) ts)
             \<lparr> solana_tx := Some (''MOCK_'' @ take 16
                  (wf_metadataHash sha256 numstr
                     (storeInDatabase (wf_applyTags (wf_parseDockingContent sha256 (message_text m))) ts))) \<rparr>)"
  by (simp add: workflow_handler_def wf_push_eq wf_anchor_def Let_def)

text \<open>
  The two serialisations of one record differ: after the first four properties the
  workflow's text goes on with \<open>file_hash\<close>, the canonical one with \<open>tags\<close>.
\<close>

lemma serialisations_differ:
  "JSON_stringify numstr (result_props r) \<noteq> JSON_stringify numstr (metadata_props r)"
proof -
  define P where "P = ''{'' @ json_quote ''protein'' @ '':'' @ json_quote (protein r) @ '','' @
     json_quote ''ligand'' @ '':'' @ json_quote (ligand r) @ '','' @
     json_quote ''binding_energy'' @ '':'' @ json_val numstr (JNum (binding_energy r)) @ '','' @
     json_quote ''docking_tool'' @ '':'' @ json_quote (docking_tool r) @ '','' @ [CHR 0x22]"
  have a: "\<exists>X. JSON_stringify numstr (result_props r) = P @ CHR ''f'' # X"
    by (simp add: JSON_stringify_def result_props_def P_def json_quote_def json_escape_def)
  have b: "\<exists>Y. JSON_stringify numstr (metadata_props r) = P @ CHR ''t'' # Y"
    by (simp add: JSON_stringify_def metadata_props_def P_def json_quote_def json_escape_def)
  from a b show ?thesis by auto
qed

lemma metadata_props_solana_tx: "metadata_props (r\<lparr> solana_tx := t \<rparr>) = metadata_props r"
  by (simp add: metadata_props_def)

text \<open>
  In \<open>STORE_METADATA\<close> with the ledger configured the reference is made from the digest
  of the canonical eight fields of the returned record.
\<close>

lemma store_roundtrip:
  assumes "\<not> falsy (SOLANA_RPC_URL settings)" "\<not> falsy (SOLANA_PRIVATE_KEY settings)"
    and "orElse (prev_tag_data opts) (taggedData opts) = Some td"
  shows "\<exists>r. ar_data (fst (storeMetadata_handler sha256 numstr settings opts message ts new_id s)) = Some r \<and>
             solana_tx r = Some (''MOCK_'' @ take 16 (metadataHash sha256 numstr r))"
  using assms
  by (simp add: storeMetadata_handler_def createSolanaProof_def Let_def metadataHash_def
      metadata_props_solana_tx)

text \<open>
  C3. The round trip fails for the combined workflow. For every submission the handler
  returns a record \<open>r\<close> whose ledger reference is made from the hash of
  \<open>JSON.stringify\<close> of the whole result object, with all nine properties in creation
  order and \<open>solana_tx\<close> still \<open>null\<close>; the canonical digest that a verifier recomputes
  from \<open>r\<close> is the hash of the eight-field serialisation, and the two hashed texts are
  never equal.
\<close>

theorem workflow_digest_not_canonical:
  "\<exists>r. ar_data (fst (workflow_handler sha256 numstr m ts s)) = Some r \<and>
       solana_tx r = Some (''MOCK_'' @ take 16
                             (sha256 (JSON_stringify numstr (result_props (r\<lparr> solana_tx := None \<rparr>))))) \<and>
       metadataHash sha256 numstr r = sha256 (JSON_stringify numstr (metadata_props r)) \<and>
       JSON_stringify numstr (result_props (r\<lparr> solana_tx := None \<rparr>))
         \<noteq> JSON_stringify numstr (metadata_props r)"
proof -
  define r0 where
    "r0 = storeInDatabase (wf_applyTags (wf_parseDockingContent sha256 (message_text m))) ts"
  define r where
    "r = r0\<lparr> solana_tx := Some (''MOCK_'' @ take 16 (wf_metadataHash sha256 numstr r0)) \<rparr>"
  have n: "r\<lparr> solana_tx := None \<rparr> = r0"
    by (simp add: r_def r0_def storeInDatabase_def)
  have a: "ar_data (fst (workflow_handler sha256 numstr m ts s)) = Some r"
    by (simp add: workflow_handler_data r_def r0_def)
  have b: "solana_tx r = Some (''MOCK_'' @ take 16
             (sha256 (JSON_stringify numstr (result_props (r\<lparr> solana_tx := None \<rparr>)))))"
    unfolding n by (simp add: r_def wf_metadataHash_def)
  have c: "metadataHash sha256 numstr r = sha256 (JSON_stringify numstr (metadata_props r))"
    by (simp add: metadataHash_def)
  have d: "JSON_stringify numstr (result_props (r\<lparr> solana_tx := None \<rparr>))
             \<noteq> JSON_stringify numstr (metadata_props r)"
    unfolding n using serialisations_differ [of numstr r0]
    by (simp add: r_def metadata_props_solana_tx)
  from a b c d show ?thesis by blast
qed

section \<open>Stored records and the query\<close>

lemma docking_results_append: "docking_results (xs @ ys) = docking_results xs @ docking_results ys"
  by (simp add: docking_results_def)

lemma docking_results_stored_memory: "docking_results [stored_memory message new_id r] = []"
  by (simp add: docking_results_def stored_memory_def)

text \<open>
  C7. Without ledger settings \<open>createSolanaProof\<close> returns \<open>null\<close>, and the handler
  still succeeds and appends a memory holding the record with \<open>solana_tx = null\<close>. But
  that memory has the keys \<open>type\<close> and \<open>data\<close>, while \<open>queryDatabase\<close> looks for the
  key \<open>docking_result\<close>: wherever the memory stands in the array the runtime returns,
  the query's result is the same as without it, and alone it yields nothing.
\<close>

theorem unanchored_record_stored_not_returned:
  assumes "falsy (SOLANA_RPC_URL settings) \<or> falsy (SOLANA_PRIVATE_KEY settings)"
    and "orElse (prev_tag_data opts) (taggedData opts) = Some td"
  shows "createSolanaProof sha256 numstr settings d = None \<and>
         ar_success (fst (storeMetadata_handler sha256 numstr settings opts message ts new_id s)) \<and>
         ar_data (fst (storeMetadata_handler sha256 numstr settings opts message ts new_id s))
           = Some (storeInDatabase td ts) \<and>
         solana_tx (storeInDatabase td ts) = None \<and>
         memories (snd (storeMetadata_handler sha256 numstr settings opts message ts new_id s))
           = memories s @ [stored_memory message new_id (storeInDatabase td ts)] \<and>
         queryDatabase (before @ [stored_memory message new_id (storeInDatabase td ts)] @ after) f
           = queryDatabase (before @ after) f \<and>
         queryDatabase [stored_memory message new_id (storeInDatabase td ts)] f = []"
proof -
  have a: "createSolanaProof sha256 numstr settings d = None" for d
    using assms(1) by (auto simp: createSolanaProof_def)
  have r: "(storeInDatabase td ts)\<lparr> solana_tx := None \<rparr> = storeInDatabase td ts"
    by (simp add: storeInDatabase_def)
  have b: "storeMetadata_handler sha256 numstr settings opts message ts new_id s =
      (\<lparr> ar_text = ''Metadata stored with blockchain proof'', ar_success = True,
         ar_error = None, ar_data = Some (storeInDatabase td ts) \<rparr>,
       s\<lparr> memories := memories s @ [stored_memory message new_id (storeInDatabase td ts)] \<rparr>)"
    using assms(2) by (simp add: storeMetadata_handler_def Let_def a r stored_memory_def)
  have "docking_results (before @ [stored_memory message new_id (storeInDatabase td ts)] @ after)
          = docking_results (before @ after)"
    by (simp add: docking_results_def stored_memory_def)
  then have c: "queryDatabase (before @ [stored_memory message new_id (storeInDatabase td ts)] @ after) f
           = queryDatabase (before @ after) f"
    by (simp only: queryDatabase_filter)
  have e: "queryDatabase [stored_memory message new_id (storeInDatabase td ts)] f = []"
    by (simp add: queryDatabase_filter docking_results_stored_memory)
  from a b c e show ?thesis by (simp add: storeInDatabase_def)
qed

theorem unanchored_record_stored_not_returned_witness:
  "(falsy (SOLANA_RPC_URL no_settings) \<or> falsy (SOLANA_PRIVATE_KEY no_settings)) \<and>
   orElse (prev_tag_data tag_data_present) (taggedData tag_data_present) = Some example_tagged \<and>
   memories (snd (storeMetadata_handler stub_sha256 stub_numstr no_settings tag_data_present
                    (user_message ''Store this docking result'') example_ts ''mem-1'' init_sys))
     = [stored_memory (user_message ''Store this docking result'') ''mem-1''
          (storeInDatabase example_tagged example_ts)] \<and>
   ar_data (fst (query_handler (\<lambda>ms. ms) (user_message ''Show me all docking results'')
                   (snd (storeMetadata_handler stub_sha256 stub_numstr no_settings tag_data_present
                           (user_message ''Store this docking result'') example_ts ''mem-1''
                           init_sys)))) = Some []"
proof -
  have h1: "falsy (SOLANA_RPC_URL no_settings) \<or> falsy (SOLANA_PRIVATE_KEY no_settings)"
    by (simp add: no_settings_def falsy_def)
  have h2: "orElse (prev_tag_data tag_data_present) (taggedData tag_data_present) = Some example_tagged"
    by (simp add: tag_data_present_def orElse_def)
  have m0: "memories init_sys = []"
    by (simp add: init_sys_def)
  note t = unanchored_record_stored_not_returned [OF h1 h2, of stub_sha256 stub_numstr
        "storeInDatabase example_tagged example_ts"
        "user_message ''Store this docking result''" example_ts "''mem-1''" init_sys "[]" "[]"
        "parseQueryFilters (message_text (user_message ''Show me all docking results''))"]
  from t m0 have mem:
    "memories (snd (storeMetadata_handler stub_sha256 stub_numstr no_settings tag_data_present
                      (user_message ''Store this docking result'') example_ts ''mem-1'' init_sys))
       = [stored_memory (user_message ''Store this docking result'') ''mem-1''
            (storeInDatabase example_tagged example_ts)]"
    by simp
  from t have q:
    "queryDatabase [stored_memory (user_message ''Store this docking result'') ''mem-1''
                      (storeInDatabase example_tagged example_ts)]
       (parseQueryFilters (message_text (user_message ''Show me all docking results''))) = []"
    by blast
  show ?thesis
    using h1 h2 mem q by (simp add: query_handler_def Let_def)
qed

section \<open>The result array over sequences of actions\<close>

lemma map_nth_append:
  "list_all (\<lambda>a. a < length xs) refs \<Longrightarrow> map (\<lambda>a. (xs @ ys) ! a) refs = map (\<lambda>a. xs ! a) refs"
  by (induction refs) (auto simp: nth_append)

lemma stored_after_push:
  assumes "refs_valid s"
  shows "stored (snd (wf_push td ts s)) = stored s @ [storeInDatabase td ts]"
    and "refs_valid (snd (wf_push td ts s))"
  using assms
  by (auto simp: wf_push_eq stored_def refs_valid_def map_nth_append list_all_iff nth_append
      split: option.splits)

lemma stored_after_anchor:
  assumes "refs_valid s"
  shows "stored (wf_anchor sha256 numstr (fst (wf_push td ts s)) (snd (wf_push td ts s))) =
           stored s @ [(storeInDatabase td ts)
                         \<lparr> solana_tx := Some (''MOCK_'' @ take 16
                              (wf_metadataHash sha256 numstr (storeInDatabase td ts))) \<rparr>]"
    and "refs_valid (wf_anchor sha256 numstr (fst (wf_push td ts s)) (snd (wf_push td ts s)))"
  using assms
  by (auto simp: wf_push_eq wf_anchor_def stored_def refs_valid_def map_nth_append list_all_iff
      nth_append Let_def split: option.splits)

lemma workflow_handler_state:
  "snd (workflow_handler sha256 numstr m ts s) =
     wf_anchor sha256 numstr
       (fst (wf_push (wf_applyTags (wf_parseDockingContent sha256 (message_text m))) ts s))
       (snd (wf_push (wf_applyTags (wf_parseDockingContent sha256 (message_text m))) ts s))"
  by (simp add: workflow_handler_def Let_def split: prod.splits)

lemma step_extends:
  assumes "refs_valid s"
  shows "refs_valid (step sha256 numstr a s) \<and>
         (\<exists>new. stored (step sha256 numstr a s) = stored s @ new) \<and>
         (\<exists>new. memories (step sha256 numstr a s) = memories s @ new)"
proof (cases a)
  case (PARSE_DOCKING_FILE m)
  then show ?thesis using assms
    by (simp add: parseDockingFile_handler_def Let_def split: option.splits)
next
  case (AUTO_TAG_DOCKING_RESULT opts)
  then show ?thesis using assms
    by (simp add: autoTag_handler_def split: option.splits)
next
  case (STORE_METADATA settings opts m ts new_id)
  then show ?thesis using assms
    by (simp add: storeMetadata_handler_def Let_def stored_def refs_valid_def split: option.splits)
next
  case (PROCESS_DOCKING_WORKFLOW m ts)
  have "memories (step sha256 numstr (PROCESS_DOCKING_WORKFLOW m ts) s) = memories s"
    by (simp add: workflow_handler_state wf_push_eq wf_anchor_def Let_def)
  with PROCESS_DOCKING_WORKFLOW show ?thesis using assms
    by (simp add: workflow_handler_state stored_after_anchor)
next
  case (QUERY_DOCKING_DATA gm m)
  then show ?thesis using assms
    by (simp add: query_handler_def Let_def)
qed

lemma run_extends:
  "refs_valid s \<Longrightarrow>
     refs_valid (run sha256 numstr acts s) \<and>
     (\<exists>new. stored (run sha256 numstr acts s) = stored s @ new) \<and>
     (\<exists>new. memories (run sha256 numstr acts s) = memories s @ new)"
proof (induction acts arbitrary: s)
  case Nil
  then show ?case by simp
next
  case (Cons a acts)
  from step_extends [OF Cons.prems] obtain n1 m1 where
    s1: "refs_valid (step sha256 numstr a s)"
        "stored (step sha256 numstr a s) = stored s @ n1"
        "memories (step sha256 numstr a s) = memories s @ m1"
    by blast
  from Cons.IH [OF s1(1)] obtain n2 m2 where
    s2: "refs_valid (run sha256 numstr acts (step sha256 numstr a s))"
        "stored (run sha256 numstr acts (step sha256 numstr a s)) = stored (step sha256 numstr a s) @ n2"
        "memories (run sha256 numstr acts (step sha256 numstr a s)) = memories (step sha256 numstr a s) @ m2"
    by blast
  from s1 s2 show ?case by simp
qed

lemma run_append: "run sha256 numstr (xs @ ys) s = run sha256 numstr ys (run sha256 numstr xs s)"
  by (induction xs arbitrary: s) auto

lemma refs_valid_init: "refs_valid init_sys"
  by (simp add: refs_valid_def init_sys_def)

lemma example_tagged_eq: "wf_applyTags (wf_parseDockingContent stub_sha256 example_text) = example_tagged"
  by code_simp

text \<open>
  C1, as stated, fails inside the combined workflow: the record is appended with
  \<open>solana_tx = null\<close>, and when the handler returns the stored copy carries the mock
  reference, written through the pushed object.
\<close>

theorem stored_copy_mutated_counterexample:
  "stored (snd (wf_push (wf_applyTags (wf_parseDockingContent stub_sha256 example_text))
                  example_ts init_sys))
     = [storeInDatabase example_tagged example_ts] \<and>
   solana_tx (storeInDatabase example_tagged example_ts) = None \<and>
   stored (snd (workflow_handler stub_sha256 stub_numstr (user_message example_text)
                  example_ts init_sys))
     = [(storeInDatabase example_tagged example_ts)\<lparr> solana_tx := Some ''MOCK_9f86d081884c7d65'' \<rparr>]"
  unfolding workflow_handler_state
  using stored_after_push(1) [OF refs_valid_init, of example_tagged example_ts]
    stored_after_anchor(1) [OF refs_valid_init, of stub_sha256 stub_numstr example_tagged example_ts]
  by (simp add: example_tagged_eq message_text_def user_message_def stored_def init_sys_def
      storeInDatabase_def wf_metadataHash_def stub_sha256_def)

text \<open>
  C1, amended. Over any sequence of actions from the initial state the records in
  \<open>global.dockingResults\<close> and the runtime's memories only grow at the end: what one
  invocation has left stored is neither removed nor changed by any later action. Inside
  one workflow invocation the push appends the record with \<open>solana_tx = null\<close>, and the
  rest of the handler changes that record's \<open>solana_tx\<close> only, to the mock reference.
\<close>

theorem stored_records_append_only:
  "(\<exists>new. stored (run sha256 numstr (acts1 @ acts2) init_sys)
            = stored (run sha256 numstr acts1 init_sys) @ new) \<and>
   (\<exists>new. memories (run sha256 numstr (acts1 @ acts2) init_sys)
            = memories (run sha256 numstr acts1 init_sys) @ new) \<and>
   stored (snd (wf_push td ts (run sha256 numstr acts1 init_sys)))
     = stored (run sha256 numstr acts1 init_sys) @ [storeInDatabase td ts] \<and>
   (\<exists>tx. stored (wf_anchor sha256 numstr
                    (fst (wf_push td ts (run sha256 numstr acts1 init_sys)))
                    (snd (wf_push td ts (run sha256 numstr acts1 init_sys))))
          = stored (run sha256 numstr acts1 init_sys)
              @ [(storeInDatabase td ts)\<lparr> solana_tx := Some tx \<rparr>])"
proof -
  have v: "refs_valid (run sha256 numstr acts1 init_sys)"
    using run_extends [OF refs_valid_init] by blast
  from run_extends [OF v, of sha256 numstr acts2] stored_after_push(1) [OF v]
    stored_after_anchor(1) [OF v]
  show ?thesis
    unfolding run_append by blast
qed

theorem stored_records_append_only_witness:
  "\<exists>new. stored (run stub_sha256 stub_numstr
                   ([PROCESS_DOCKING_WORKFLOW (user_message example_text) example_ts]
                      @ example_actions) init_sys)
          = [(storeInDatabase example_tagged example_ts)
               \<lparr> solana_tx := Some ''MOCK_9f86d081884c7d65'' \<rparr>] @ new"
proof -
  have e: "stored (run stub_sha256 stub_numstr
                     [PROCESS_DOCKING_WORKFLOW (user_message example_text) example_ts] init_sys)
             = [(storeInDatabase example_tagged example_ts)
                  \<lparr> solana_tx := Some ''MOCK_9f86d081884c7d65'' \<rparr>]"
    by code_simp
  from stored_records_append_only [of stub_sha256 stub_numstr
      "[PROCESS_DOCKING_WORKFLOW (user_message example_text) example_ts]" example_actions]
  show ?thesis
    unfolding e by blast
qed

section \<open>What a query can see after any sequence of actions\<close>

text \<open>
  No action creates a memory with the key \<open>docking_result\<close>, so after any sequence of
  actions from the initial state a query finds nothing, as long as the runtime returns
  memories of its table.
\<close>

lemma step_memories_lack_key:
  assumes "list_all (\<lambda>m. c_docking_result (m_content m) = None) (memories s)"
  shows "list_all (\<lambda>m. c_docking_result (m_content m) = None) (memories (step sha256 numstr a s))"
proof (cases a)
  case (PARSE_DOCKING_FILE m)
  then show ?thesis using assms
    by (simp add: parseDockingFile_handler_def Let_def split: option.splits)
next
  case (AUTO_TAG_DOCKING_RESULT opts)
  then show ?thesis using assms
    by (simp add: autoTag_handler_def split: option.splits)
next
  case (STORE_METADATA settings opts m ts new_id)
  then show ?thesis using assms
    by (simp add: storeMetadata_handler_def Let_def split: option.splits)
next
  case (PROCESS_DOCKING_WORKFLOW m ts)
  then show ?thesis using assms
    by (simp add: workflow_handler_state wf_push_eq wf_anchor_def Let_def)
next
  case (QUERY_DOCKING_DATA gm m)
  then show ?thesis using assms
    by (simp add: query_handler_def Let_def)
qed

lemma run_memories_lack_key:
  "list_all (\<lambda>m. c_docking_result (m_content m) = None) (memories s) \<Longrightarrow>
   list_all (\<lambda>m. c_docking_result (m_content m) = None) (memories (run sha256 numstr acts s))"
  by (induction acts arbitrary: s) (auto simp: step_memories_lack_key)

lemma docking_results_lack_key:
  "list_all (\<lambda>m. c_docking_result (m_content m) = None) mems \<Longrightarrow> docking_results mems = []"
  by (induction mems) (auto simp: docking_results_def)

lemma query_after_any_run_empty:
  assumes "set (getMemories (memories (run sha256 numstr acts init_sys)))
             \<subseteq> set (memories (run sha256 numstr acts init_sys))"
  shows "ar_data (fst (query_handler getMemories q (run sha256 numstr acts init_sys))) = Some []"
proof -
  have "list_all (\<lambda>m. c_docking_result (m_content m) = None)
          (memories (run sha256 numstr acts init_sys))"
    by (rule run_memories_lack_key) (simp add: init_sys_def)
  with assms have "list_all (\<lambda>m. c_docking_result (m_content m) = None)
          (getMemories (memories (run sha256 numstr acts init_sys)))"
    by (auto simp: list_all_iff)
  then have "queryDatabase (getMemories (memories (run sha256 numstr acts init_sys))) f = []" for f
    by (simp add: queryDatabase_filter docking_results_lack_key)
  then show ?thesis
    by (simp add: query_handler_def Let_def)
qed

text \<open>
  The combined workflow has no rejecting path: whatever the text, the handler succeeds
  and one more record is stored.
\<close>

lemma workflow_accepts_every_text:
  assumes "refs_valid s"
  shows "ar_success (fst (workflow_handler sha256 numstr m ts s)) \<and>
         length (stored (snd (workflow_handler sha256 numstr m ts s))) = Suc (length (stored s))"
  using stored_after_anchor(1) [OF assms]
  by (simp add: workflow_handler_state) (simp add: workflow_handler_def Let_def split: prod.splits)

end
